theory Spec2Isabelle
  imports Main "HOL-Library.Word" "HOL-Library.Sublist"
begin

section \<open>Python values and exceptions\<close>

text \<open>
  The values that \<open>json.loads\<close> and \<open>ast.literal_eval\<close> can return, and that travel in
  message payloads. A float is kept as its 64-bit pattern: no function below computes with
  it. A dict lists its items in insertion order, with distinct keys. Strings are Python
  \<open>str\<close> values over the code points below 256, one \<open>char\<close> for each code point.
\<close>

datatype pyval =
    PyNone
  | PyBool bool
  | PyInt int
  | PyFloat "64 word"
  | PyComplex "64 word" "64 word"
  | PyStr string
  | PyBytes string
  | PyList "pyval list"
  | PyTuple "pyval list"
  | PySet "pyval list"
  | PyDict "(pyval \<times> pyval) list"

text \<open>
  Exceptions are values: a class and the text \<open>str(e)\<close>. The classes are the ones the
  handlers of \<open>process_llm_response\<close> tell apart (\<open>JSONDecodeError\<close> is a subclass of
  \<open>ValueError\<close>), the ones the interpreter raises in the code below, and
  \<open>OtherException\<close> for every other subclass of \<open>Exception\<close>. Signals outside
  \<open>Exception\<close> (\<open>KeyboardInterrupt\<close>, \<open>SystemExit\<close>) end the process and are not
  modelled.
\<close>

datatype exn_class =
  JSONDecodeError | ValueError | SyntaxError | TypeError | KeyError | AttributeError
  | OtherException

datatype py_exn = Exn (cls: exn_class) (msg: string)

definition is_ValueError :: "exn_class \<Rightarrow> bool" where
  "is_ValueError c = (c = ValueError \<or> c = JSONDecodeError)"

fun type_name :: "pyval \<Rightarrow> string" where
  "type_name PyNone = ''NoneType''"
| "type_name (PyBool _) = ''bool''"
| "type_name (PyInt _) = ''int''"
| "type_name (PyFloat _) = ''float''"
| "type_name (PyComplex _ _) = ''complex''"
| "type_name (PyStr _) = ''str''"
| "type_name (PyBytes _) = ''bytes''"
| "type_name (PyList _) = ''list''"
| "type_name (PyTuple _) = ''tuple''"
| "type_name (PySet _) = ''set''"
| "type_name (PyDict _) = ''dict''"

definition quoted :: "string \<Rightarrow> string" where
  "quoted s = [CHR 0x27] @ s @ [CHR 0x27]"

text \<open>\<open>needle in haystack\<close> on two strings: the substring test.\<close>

fun str_contains :: "string \<Rightarrow> string \<Rightarrow> bool" where
  "str_contains n [] = (n = [])"
| "str_contains n (c # cs) = (prefix n (c # cs) \<or> str_contains n cs)"

text \<open>
  The operator \<open>s in v\<close> for a string \<open>s\<close>: key membership on a dict, element membership
  on a list, tuple or set (a string equals only an equal string), the substring test on a
  string, and a \<open>TypeError\<close> on everything else. The texts of the interpreter's own
  errors are CPython's; nothing below depends on them.
\<close>

fun str_in :: "string \<Rightarrow> pyval \<Rightarrow> py_exn + bool" where
  "str_in s (PyDict kvs) = Inr (PyStr s \<in> set (map fst kvs))"
| "str_in s (PyList xs) = Inr (PyStr s \<in> set xs)"
| "str_in s (PyTuple xs) = Inr (PyStr s \<in> set xs)"
| "str_in s (PySet xs) = Inr (PyStr s \<in> set xs)"
| "str_in s (PyStr t) = Inr (str_contains s t)"
| "str_in s (PyBytes b) =
     Inl (Exn TypeError (''a bytes-like object is required, not '' @ quoted ''str''))"
| "str_in s v =
     Inl (Exn TypeError (''argument of type '' @ quoted (type_name v) @ '' is not iterable''))"

text \<open>The subscription \<open>v[k]\<close> with a string key \<open>k\<close>.\<close>

fun getitem_str :: "pyval \<Rightarrow> string \<Rightarrow> py_exn + pyval" where
  "getitem_str (PyDict kvs) k =
     (case map_of kvs (PyStr k) of
        Some v \<Rightarrow> Inr v
      | None \<Rightarrow> Inl (Exn KeyError (quoted k)))"
| "getitem_str (PyList xs) k =
     Inl (Exn TypeError ''list indices must be integers or slices, not str'')"
| "getitem_str (PyTuple xs) k =
     Inl (Exn TypeError ''tuple indices must be integers or slices, not str'')"
| "getitem_str (PyStr t) k = Inl (Exn TypeError ''string indices must be integers'')"
| "getitem_str (PyBytes b) k =
     Inl (Exn TypeError ''byte indices must be integers or slices, not str'')"
| "getitem_str v k =
     Inl (Exn TypeError (quoted (type_name v) @ '' object is not subscriptable''))"

text \<open>The elements a \<open>for\<close> loop over \<open>v\<close> visits: a dict yields its keys, a string
  its characters as one-character strings, a bytes object its bytes as integers.\<close>

fun py_iter :: "pyval \<Rightarrow> py_exn + pyval list" where
  "py_iter (PyList xs) = Inr xs"
| "py_iter (PyTuple xs) = Inr xs"
| "py_iter (PySet xs) = Inr xs"
| "py_iter (PyDict kvs) = Inr (map fst kvs)"
| "py_iter (PyStr t) = Inr (map (\<lambda>c. PyStr [c]) t)"
| "py_iter (PyBytes b) = Inr (map (\<lambda>c. PyInt (of_char c)) b)"
| "py_iter v = Inl (Exn TypeError (quoted (type_name v) @ '' object is not iterable''))"

text \<open>
  \<open>str.strip()\<close>: leading and trailing whitespace removed. The whitespace characters
  below 256 are the code points 9 to 13, 28 to 32, 133 (U+0085) and 160 (U+00A0).
\<close>

definition is_space :: "char \<Rightarrow> bool" where
  "is_space c = (of_char c \<in> {9, 10, 11, 12, 13, 28, 29, 30, 31, 32, 133, 160 :: nat})"

definition strip :: "string \<Rightarrow> string" where
  "strip s = rev (dropWhile is_space (rev (dropWhile is_space s)))"

text \<open>
  \<open>str.capitalize()\<close>: the first character in upper case, the rest in lower case. The
  code applies it to a role, and the roles it writes are the ASCII literals
  \<open>system\<close>, \<open>user\<close> and \<open>assistant\<close>; the letters mapped here are the ASCII ones.
\<close>

definition upper_char :: "char \<Rightarrow> char" where
  "upper_char c =
     (if 97 \<le> (of_char c :: nat) \<and> (of_char c :: nat) \<le> 122
      then char_of ((of_char c :: nat) - 32) else c)"

definition lower_char :: "char \<Rightarrow> char" where
  "lower_char c =
     (if 65 \<le> (of_char c :: nat) \<and> (of_char c :: nat) \<le> 90
      then char_of ((of_char c :: nat) + 32) else c)"

fun capitalize :: "string \<Rightarrow> string" where
  "capitalize [] = []"
| "capitalize (c # cs) = upper_char c # map lower_char cs"

section \<open>The store: list and dict objects\<close>

text \<open>
  \<open>dialogs\<close> and \<open>init_dialogs\<close> are references to list objects whose elements are
  references to dict objects \<open>{"role": r, "content": c}\<close>; \<open>append\<close> mutates the list
  object in place. The store holds the list objects and the dict objects, each kind in
  its own address space (an object never changes its type); an address is the index of
  the object, and allocation appends. Strings are immutable and stay values inside the
  dict objects.
\<close>

type_synonym addr = nat

record turn =
  role :: string
  content :: string

record store =
  lists :: "addr list list"
  dicts :: "turn list"

definition list_at :: "store \<Rightarrow> addr \<Rightarrow> addr list" where
  "list_at st l = (if l < length (lists st) then lists st ! l else [])"

definition dict_at :: "store \<Rightarrow> addr \<Rightarrow> turn" where
  "dict_at st d = (if d < length (dicts st) then dicts st ! d else \<lparr>role = [], content = []\<rparr>)"

text \<open>The value a list reference denotes: its turns, in order.\<close>

definition turns_of :: "store \<Rightarrow> addr \<Rightarrow> turn list" where
  "turns_of st l = map (dict_at st) (list_at st l)"

definition new_list :: "store \<Rightarrow> addr \<times> store" where
  "new_list st = (length (lists st), st\<lparr>lists := lists st @ [[]]\<rparr>)"

definition new_dict :: "turn \<Rightarrow> store \<Rightarrow> addr \<times> store" where
  "new_dict t st = (length (dicts st), st\<lparr>dicts := dicts st @ [t]\<rparr>)"

definition list_append :: "addr \<Rightarrow> addr \<Rightarrow> store \<Rightarrow> store" where
  "list_append l d st = st\<lparr>lists := (lists st)[l := list_at st l @ [d]]\<rparr>"

text \<open>\<open>l.append({"role": r, "content": c})\<close>: a new dict object, appended to \<open>l\<close>.\<close>

definition append_turn :: "addr \<Rightarrow> turn \<Rightarrow> store \<Rightarrow> store" where
  "append_turn l t st = (case new_dict t st of (d, st1) \<Rightarrow> list_append l d st1)"

text \<open>
  \<open>copy.deepcopy\<close> of a list of dicts: a new list object holding a new dict object for
  each element; the memo maps an element already copied to its copy, so an element that
  occurs twice is copied once.
\<close>

fun copy_elems :: "addr list \<Rightarrow> (addr \<times> addr) list \<Rightarrow> store \<Rightarrow> addr list \<times> store" where
  "copy_elems [] memo st = ([], st)"
| "copy_elems (d # ds) memo st =
     (case map_of memo d of
        Some d' \<Rightarrow> (case copy_elems ds memo st of (r, st') \<Rightarrow> (d' # r, st'))
      | None \<Rightarrow>
          (case new_dict (dict_at st d) st of
             (d', st1) \<Rightarrow>
               (case copy_elems ds ((d, d') # memo) st1 of (r, st2) \<Rightarrow> (d' # r, st2))))"

definition deepcopy :: "addr \<Rightarrow> store \<Rightarrow> addr \<times> store" where
  "deepcopy l st =
     (case new_list st of
        (l', st1) \<Rightarrow>
          (case copy_elems (list_at st l) [] st1 of
             (ds, st2) \<Rightarrow> (l', st2\<lparr>lists := (lists st2)[l' := ds]\<rparr>)))"

section \<open>Messages and the collaborators outside the repository\<close>

text \<open>
  Modelled from the spec: the module \<open>message\<close> (\<open>Message\<close>, \<open>MessageType\<close>) is not
  among the sources. An envelope is a message kind and a payload, the kinds are the six
  of the spec's data model, and \<open>serialize\<close> is total and keeps both, so the outgoing
  queue is the list of envelopes put on it.
\<close>

datatype MessageType = INIT | COMMAND | EVOLUTION_UPDATE | THRESHOLD_START | SUGGESTION | ERROR

record message =
  msg_type :: MessageType
  payload :: pyval

text \<open>
  What lines 142-146 yield. \<open>Content c\<close>: the call returned a completion whose first
  choice has the string \<open>c\<close> as its content, which line 146 strips. \<open>Raised e\<close>:
  the call raised \<open>e\<close>, or reading its result did (a completion with no choice, or
  whose content is \<open>None\<close>, makes line 146 raise).
\<close>

datatype backend_result = Content string | Raised py_exn

text \<open>
  The library functions and the model backend are parameters: the backend answers from
  a state of its own (of type \<open>'w\<close>), which every call may change.
\<close>

record 'w env =
  llm_create :: "'w \<Rightarrow> string \<Rightarrow> turn list \<Rightarrow> backend_result \<times> 'w"
  json_loads :: "string \<Rightarrow> py_exn + pyval"
  literal_eval :: "string \<Rightarrow> py_exn + pyval"
  py_str :: "pyval \<Rightarrow> string"
  format_4f :: "pyval \<Rightarrow> py_exn + string"

section \<open>Prompt templates\<close>

text \<open>
  The templates of \<open>PromptTemplates\<close>, each cut at its placeholders: \<open>T.format(...)\<close>
  is the concatenation of the pieces with the arguments in between.
  \<open>resp_format_json\<close> is \<open>json.dumps(resp_format, indent=2, ensure_ascii=False)\<close>
  for the literal \<open>resp_format\<close> of lines 13-22.
\<close>

definition SYSTEM_1 :: string where
  \<open>SYSTEM_1 = ''
You are a Visual Logic Architect and Logic Expression Optimizer. You can explain visual scene descriptions and help improve logical expressions to make them more accurate, efficient, and interpretable to meet the requirements of visual scene features and relationships.

Key Capabilities:
1. Expression Analysis: Evaluate the logical coherence, redundancy, and semantic consistency of current symbolic expressions.
2. Optimization Suggestions: Identify potential simplifications or adjustments (e.g., removing redundant terms, optimizing conditions) while maintaining or enhancing the descriptive power.
3. Task-Specific Optimization: Propose modifications based on specific scenario requirements (e.g., safety, target tracking) and apply symbolic regression optimization rules to improve task performance while minimizing performance loss.
4. Interpretability Enhancement: Make expressions more understandable through simplified relationships, context-aware labels, or reformatting to reflect intuitive conditional structures.

Essential steps for fulfilling this role:
1. Initial Analysis: Extract information from logical expressions and corresponding metrics. Evaluate expressions for immediate improvements from context. This includes identifying overly complex nested structures and ambiguities in terminology.
2. Contextual Optimization: Suggest simplifications or replacements of logical structures based on specific visual task objectives (e.g., ensuring safety compliance, identifying specific object behaviors), simplifying expression complexity while maintaining original intent.
3. Iterative Improvement: LLM repeatedly reviews and modifies symbolic expressions, ideally interacting with symbolic regression feedback loops to evaluate improvements in task accuracy or computational efficiency.

Current task scenario elements:
1. Available variable symbols: ''\<close>

definition SYSTEM_2 :: string where
  \<open>SYSTEM_2 = ''
2. Supported operators: ''\<close>

definition SYSTEM_3 :: string where
  \<open>SYSTEM_3 = ''
3. Example expression format: "and_(gt(x0, x2), or_(x1, x2))", where x0, x1, x2 are variable symbols, gt, or_, and_ are operators
4. Keep expressions concise, avoid overly complex expressions, minimize the use of operators and variable symbols.

Note: Ensure that variable symbols exist in the current task scenario and operators are supported in the current task scenario!!!

Please think carefully, but provide your suggestions in the following format (maximum 3 suggestions):
''\<close>

definition SYSTEM_4 :: string where
  \<open>SYSTEM_4 = ''
''\<close>

definition FIRST_ROUND_1 :: string where
  \<open>FIRST_ROUND_1 = ''
I've noticed the following well-performing individuals in the current population:

''\<close>

definition FIRST_ROUND_2 :: string where
  \<open>FIRST_ROUND_2 = ''

As the first round of interaction, please carefully analyze the characteristics of these expressions and provide improvement suggestions. You can:
1. Analyze common patterns or unique features of these expressions
2. Identify potential optimization opportunities
3. Propose new expression combination methods

Please ensure your suggestions maintain the basic structure of expressions while trying to improve their performance.
''\<close>

definition SUBSEQUENT_ROUND_1 :: string where
  \<open>SUBSEQUENT_ROUND_1 = ''
I've noticed the following well-performing individuals in the current population:

''\<close>

definition SUBSEQUENT_ROUND_2 :: string where
  \<open>SUBSEQUENT_ROUND_2 = ''

In the previous round of interaction, your suggestions and their effects were as follows:

''\<close>

definition SUBSEQUENT_ROUND_3 :: string where
  \<open>SUBSEQUENT_ROUND_3 = ''

Based on the above information, especially the effects of previous suggestions, please propose new improvement plans. You can:
1. Learn from successful suggestions
2. Analyze reasons for failed suggestions and avoid similar issues
3. Incorporate characteristics of excellent individuals in the current population
4. Provide maximum of 3 expressions in suggestions
5. Keep expressions concise, avoid overly complex expressions, minimize operators and variable symbols.
''\<close>

definition ERROR_FEEDBACK_1 :: string where
  \<open>ERROR_FEEDBACK_1 = ''
I noticed your last response had formatting issues. Please strictly follow this JSON format:

''\<close>

definition ERROR_FEEDBACK_2 :: string where
  \<open>ERROR_FEEDBACK_2 = ''

Error message: ''\<close>

definition ERROR_FEEDBACK_3 :: string where
  \<open>ERROR_FEEDBACK_3 = ''

Please regenerate your suggestions, ensuring:
1. Response must be valid JSON format
2. Include all required fields
3. Expression field must use correct operators and variables
4. Don't wrap json data in markdown code blocks, just provide raw json data

''\<close>

definition resp_format_json :: string where
  \<open>resp_format_json = ''{
  "suggestions": [
    {
      "expression": "< Improved expression (please follow the given expression format) >",
      "reason": "< Reason for the suggested improvement >"
    }
  ],
  "anomaly_score": "< Your assessment score for the current scenario's anomaly level >",
  "reason": "< Reason for the anomaly score >"
}''\<close>

section \<open>Prompt construction (PromptTemplates)\<close>

text \<open>\<open>str(v)\<close>, as an f-string or \<open>str.format\<close> renders a value: a string is itself.\<close>

definition str_of :: "'w env \<Rightarrow> pyval \<Rightarrow> string" where
  "str_of env v = (case v of PyStr s \<Rightarrow> s | _ \<Rightarrow> py_str env v)"

text \<open>The decimal numeral of a natural number.\<close>

fun string_of_nat :: "nat \<Rightarrow> string" where
  "string_of_nat n =
     (if n < 10 then [char_of (48 + n)]
      else string_of_nat (n div 10) @ [char_of (48 + n mod 10)])"

declare string_of_nat.simps [simp del]

definition string_of_int :: "int \<Rightarrow> string" where
  "string_of_int i = (if i < 0 then ''-'' @ string_of_nat (nat (- i)) else string_of_nat (nat i))"

text \<open>\<open>sep.join(xs)\<close>.\<close>

fun join :: "string \<Rightarrow> string list \<Rightarrow> string" where
  "join sep [] = []"
| "join sep [x] = x"
| "join sep (x # y # ys) = x @ sep @ join sep (y # ys)"

text \<open>
  One item of the generator in \<open>format_top_individuals\<close> (lines 102-104): the f-string
  evaluates and renders its fields from left to right, so a missing \<open>expression\<close> is
  reported before a missing or unformattable \<open>fitness\<close>.
\<close>

definition format_individual :: "'w env \<Rightarrow> nat \<Rightarrow> pyval \<Rightarrow> py_exn + string" where
  "format_individual env i ind =
     (case getitem_str ind ''expression'' of
        Inl e \<Rightarrow> Inl e
      | Inr ex \<Rightarrow>
          (case getitem_str ind ''fitness'' of
             Inl e \<Rightarrow> Inl e
           | Inr fit \<Rightarrow>
               (case format_4f env fit of
                  Inl e \<Rightarrow> Inl e
                | Inr f \<Rightarrow>
                    Inr (''Individual '' @ string_of_nat (i + 1) @ '':\<newline>'' @
                         ''- Expression: '' @ str_of env ex @ ''\<newline>'' @
                         ''- Fitness: '' @ f))))"

text \<open>The items for the elements from index \<open>i\<close> on; the first exception ends the run.\<close>

fun format_individuals_from :: "'w env \<Rightarrow> nat \<Rightarrow> pyval list \<Rightarrow> py_exn + string list" where
  "format_individuals_from env i [] = Inr []"
| "format_individuals_from env i (ind # inds) =
     (case format_individual env i ind of
        Inl e \<Rightarrow> Inl e
      | Inr s \<Rightarrow>
          (case format_individuals_from env (i + 1) inds of
             Inl e \<Rightarrow> Inl e
           | Inr ss \<Rightarrow> Inr (s # ss)))"

definition format_top_individuals :: "'w env \<Rightarrow> pyval \<Rightarrow> py_exn + string" where
  "format_top_individuals env individuals =
     (case py_iter individuals of
        Inl e \<Rightarrow> Inl e
      | Inr inds \<Rightarrow>
          (case format_individuals_from env 0 inds of
             Inl e \<Rightarrow> Inl e
           | Inr ss \<Rightarrow> Inr (join ''\<newline>'' ss)))"

text \<open>One entry of \<open>format_previous_results\<close> (lines 113-124).\<close>

definition format_result :: "'w env \<Rightarrow> pyval \<Rightarrow> py_exn + string" where
  "format_result env sugg =
     (case getitem_str sugg ''status'' of
        Inl e \<Rightarrow> Inl e
      | Inr status \<Rightarrow>
          (case getitem_str sugg ''expression'' of
             Inl e \<Rightarrow> Inl e
           | Inr ex \<Rightarrow>
               (if status = PyStr ''success'' then
                  (case getitem_str sugg ''fitness'' of
                     Inl e \<Rightarrow> Inl e
                   | Inr fit \<Rightarrow>
                       (case format_4f env fit of
                          Inl e \<Rightarrow> Inl e
                        | Inr f \<Rightarrow>
                            (case getitem_str sugg ''reason'' of
                               Inl e \<Rightarrow> Inl e
                             | Inr reason \<Rightarrow>
                                 Inr (''Suggested Expression: '' @ str_of env ex @ ''\<newline>'' @
                                      ''- Actual Fitness: '' @ f @ ''\<newline>'' @
                                      ''- Improvement Reason: '' @ str_of env reason))))
                else
                  (case getitem_str sugg ''error'' of
                     Inl e \<Rightarrow> Inl e
                   | Inr err \<Rightarrow>
                       (case getitem_str sugg ''reason'' of
                          Inl e \<Rightarrow> Inl e
                        | Inr reason \<Rightarrow>
                            Inr (''Suggested Expression: '' @ str_of env ex @ ''\<newline>'' @
                                 ''- Evaluation Failed: '' @ str_of env err @ ''\<newline>'' @
                                 ''- Improvement Reason: '' @ str_of env reason))))))"

fun format_results :: "'w env \<Rightarrow> pyval list \<Rightarrow> py_exn + string list" where
  "format_results env [] = Inr []"
| "format_results env (sugg # suggs) =
     (case format_result env sugg of
        Inl e \<Rightarrow> Inl e
      | Inr s \<Rightarrow>
          (case format_results env suggs of
             Inl e \<Rightarrow> Inl e
           | Inr ss \<Rightarrow> Inr (s # ss)))"

definition format_previous_results :: "'w env \<Rightarrow> pyval \<Rightarrow> py_exn + string" where
  "format_previous_results env suggestions =
     (case getitem_str suggestions ''suggestions'' of
        Inl e \<Rightarrow> Inl e
      | Inr v \<Rightarrow>
          (case py_iter v of
             Inl e \<Rightarrow> Inl e
           | Inr suggs \<Rightarrow>
               (case format_results env suggs of
                  Inl e \<Rightarrow> Inl e
                | Inr ss \<Rightarrow> Inr (join ''\<newline>\<newline>'' ss))))"

definition create_system_prompt :: "'w env \<Rightarrow> pyval \<Rightarrow> pyval \<Rightarrow> string \<Rightarrow> string" where
  "create_system_prompt env labels operators format_example =
     SYSTEM_1 @ str_of env labels @ SYSTEM_2 @ str_of env operators @ SYSTEM_3 @
     format_example @ SYSTEM_4"

definition error_feedback :: "string \<Rightarrow> string" where
  "error_feedback error_msg =
     ERROR_FEEDBACK_1 @ resp_format_json @ ERROR_FEEDBACK_2 @ error_msg @ ERROR_FEEDBACK_3"


section \<open>The response validator (process_llm_response, lines 152-169)\<close>

text \<open>
  Lines 152-161: \<open>json.loads\<close>; on \<open>JSONDecodeError\<close> only, \<open>ast.literal_eval\<close>,
  whose \<open>ValueError\<close> or \<open>SyntaxError\<close> is raised again as a \<open>ValueError\<close> that
  carries its text. Any other exception of either parser leaves the block as it is.
\<close>

definition parse_payload :: "'w env \<Rightarrow> string \<Rightarrow> py_exn + pyval" where
  "parse_payload env model_response =
     (case json_loads env model_response of
        Inr p \<Rightarrow> Inr p
      | Inl e \<Rightarrow>
          (if cls e = JSONDecodeError then
             (case literal_eval env model_response of
                Inr p \<Rightarrow> Inr p
              | Inl e2 \<Rightarrow>
                  (if is_ValueError (cls e2) \<or> cls e2 = SyntaxError
                   then Inl (Exn ValueError (''Cannot parse response format: '' @ msg e2))
                   else Inl e2))
           else Inl e))"

definition missing_suggestions :: py_exn where
  "missing_suggestions = Exn ValueError (''Response missing '' @ quoted ''suggestions'' @ '' field'')"

definition missing_fields :: py_exn where
  "missing_fields =
     Exn ValueError (''Suggestion missing required fields '' @ quoted ''expression'' @
                     '' or '' @ quoted ''reason'')"

text \<open>The loop of lines 167-169; \<open>or\<close> evaluates its right operand only when the left
  one is false.\<close>

fun check_suggestions :: "pyval list \<Rightarrow> py_exn + unit" where
  "check_suggestions [] = Inr ()"
| "check_suggestions (suggestion # rest) =
     (case str_in ''expression'' suggestion of
        Inl e \<Rightarrow> Inl e
      | Inr has_expression \<Rightarrow>
          (if \<not> has_expression then Inl missing_fields
           else
             (case str_in ''reason'' suggestion of
                Inl e \<Rightarrow> Inl e
              | Inr has_reason \<Rightarrow>
                  (if \<not> has_reason then Inl missing_fields else check_suggestions rest))))"

text \<open>Lines 164-169.\<close>

definition check_payload :: "pyval \<Rightarrow> py_exn + unit" where
  "check_payload suggestion_payload =
     (case str_in ''suggestions'' suggestion_payload of
        Inl e \<Rightarrow> Inl e
      | Inr has_suggestions \<Rightarrow>
          (if \<not> has_suggestions then Inl missing_suggestions
           else
             (case getitem_str suggestion_payload ''suggestions'' of
                Inl e \<Rightarrow> Inl e
              | Inr v \<Rightarrow>
                  (case py_iter v of
                     Inl e \<Rightarrow> Inl e
                   | Inr suggestions \<Rightarrow> check_suggestions suggestions))))"

definition validate_response :: "'w env \<Rightarrow> string \<Rightarrow> py_exn + pyval" where
  "validate_response env model_response =
     (case parse_payload env model_response of
        Inl e \<Rightarrow> Inl e
      | Inr suggestion_payload \<Rightarrow>
          (case check_payload suggestion_payload of
             Inl e \<Rightarrow> Inl e
           | Inr _ \<Rightarrow> Inr suggestion_payload))"

section \<open>The retry coordinator (process_llm_response)\<close>

text \<open>What \<open>process_llm_response\<close> reads and changes: the store (through \<open>dialogs\<close>),
  the backend, and the outgoing queue.\<close>

record 'w machine =
  heap :: store
  world :: 'w
  queue_snd :: "message list"

text \<open>The handlers of lines 179-184: the text bound to \<open>error_msg\<close>.\<close>

definition error_msg_of :: "py_exn \<Rightarrow> string" where
  "error_msg_of e =
     (if is_ValueError (cls e) then ''Response format error: '' @ msg e
      else ''Unknown error: '' @ msg e)"

datatype attempt_result = Sent | Failed string

text \<open>
  One pass through the \<open>try\<close> statement of lines 140-184: \<open>Sent\<close> when line 177 is
  reached, \<open>Failed error_msg\<close> when a handler ran. The assistant turn is appended at
  line 149, after the call has returned and before the response is validated.
\<close>

definition attempt ::
  "'w env \<Rightarrow> string \<Rightarrow> addr \<Rightarrow> 'w machine \<Rightarrow> attempt_result \<times> 'w machine"
where
  "attempt env model_name dialogs m =
     (case llm_create env (world m) model_name (turns_of (heap m) dialogs) of
        (Raised e, w) \<Rightarrow> (Failed (error_msg_of e), m\<lparr>world := w\<rparr>)
      | (Content c, w) \<Rightarrow>
          (let model_response = strip c;
               m1 = m\<lparr>world := w,
                      heap := append_turn dialogs
                                \<lparr>role = ''assistant'', content = model_response\<rparr> (heap m)\<rparr>
           in case validate_response env model_response of
                Inl e \<Rightarrow> (Failed (error_msg_of e), m1)
              | Inr suggestion_payload \<Rightarrow>
                  (Sent,
                   m1\<lparr>queue_snd := queue_snd m1 @
                        [\<lparr>msg_type = SUGGESTION, payload = suggestion_payload\<rparr>]\<rparr>)))"

text \<open>Lines 186-193 and 194-204.\<close>

definition feedback :: "addr \<Rightarrow> string \<Rightarrow> 'w machine \<Rightarrow> 'w machine" where
  "feedback dialogs error_msg m =
     m\<lparr>heap := append_turn dialogs \<lparr>role = ''user'', content = error_feedback error_msg\<rparr> (heap m)\<rparr>"

definition error_message :: "string \<Rightarrow> int \<Rightarrow> message" where
  "error_message error_msg retries =
     \<lparr>msg_type = ERROR,
      payload = PyDict [(PyStr ''error'', PyStr error_msg), (PyStr ''retries'', PyInt retries)]\<rparr>"

text \<open>What the call returns: \<open>True\<close>, \<open>False\<close>, or \<open>None\<close> when the \<open>while\<close> loop
  ends by its condition and the function body runs out.\<close>

datatype retval = Returned bool | ReturnedNone

text \<open>The \<open>while\<close> loop of lines 139-204, from the value \<open>retries\<close> of the counter.\<close>

function retry_loop ::
  "'w env \<Rightarrow> string \<Rightarrow> addr \<Rightarrow> int \<Rightarrow> int \<Rightarrow> 'w machine \<Rightarrow> retval \<times> 'w machine"
where
  "retry_loop env model_name dialogs max_retries retries m =
     (if retries < max_retries then
        (case attempt env model_name dialogs m of
           (Sent, m1) \<Rightarrow> (Returned True, m1)
         | (Failed error_msg, m1) \<Rightarrow>
             (if retries + 1 < max_retries
              then retry_loop env model_name dialogs max_retries (retries + 1)
                     (feedback dialogs error_msg m1)
              else (Returned False,
                    m1\<lparr>queue_snd := queue_snd m1 @ [error_message error_msg (retries + 1)]\<rparr>)))
      else (ReturnedNone, m))"
  by pat_completeness auto
termination
  by (relation "measure (\<lambda>(env, model_name, dialogs, max_retries, retries, m).
                          nat (max_retries - retries))") auto

declare retry_loop.simps [simp del]

definition process_llm_response ::
  "'w env \<Rightarrow> string \<Rightarrow> addr \<Rightarrow> int \<Rightarrow> 'w machine \<Rightarrow> retval \<times> 'w machine"
where
  "process_llm_response env model_name dialogs max_retries m =
     retry_loop env model_name dialogs max_retries 0 m"


section \<open>The dispatcher (llama_main)\<close>

text \<open>
  One poll of the incoming queue: the timeout, bytes that \<open>Message.deserialize\<close>
  rejects, or a message. Console output (\<open>cprint\<close>) is not modelled.
\<close>

datatype event = QueueEmpty | Undecodable | Received message

text \<open>The locals of \<open>llama_main\<close>; \<open>out_f\<close> is the text written to the file so far.\<close>

record 'w worker =
  mach :: "'w machine"
  init_dialogs :: addr
  dialogs :: addr
  out_f :: string

text \<open>\<open>payload.get(key, default)\<close>: only a dict has the method.\<close>

definition payload_get :: "pyval \<Rightarrow> string \<Rightarrow> pyval \<Rightarrow> py_exn + pyval" where
  "payload_get p key dflt =
     (case p of
        PyDict kvs \<Rightarrow> (case map_of kvs (PyStr key) of Some v \<Rightarrow> Inr v | None \<Rightarrow> Inr dflt)
      | _ \<Rightarrow>
          Inl (Exn AttributeError
                 (quoted (type_name p) @ '' object has no attribute '' @ quoted ''get'')))"

definition prompt_suffix :: string where
  \<open>prompt_suffix = ''

Please provide your suggestions in the following JSON format (give json data directly, don't wrap in code blocks):
'' @ resp_format_json\<close>

text \<open>Lines 252-270: the text of the round prompt.\<close>

definition round_prompt :: "'w env \<Rightarrow> pyval \<Rightarrow> py_exn + string" where
  "round_prompt env p =
     (case payload_get p ''top_individuals'' (PyList []) of
        Inl e \<Rightarrow> Inl e
      | Inr top_individuals \<Rightarrow>
          (case payload_get p ''previous_suggestions'' PyNone of
             Inl e \<Rightarrow> Inl e
           | Inr previous_suggestions \<Rightarrow>
               (case format_top_individuals env top_individuals of
                  Inl e \<Rightarrow> Inl e
                | Inr formatted_individuals \<Rightarrow>
                    (if previous_suggestions = PyNone then
                       Inr (FIRST_ROUND_1 @ formatted_individuals @ FIRST_ROUND_2 @ prompt_suffix)
                     else
                       (case format_previous_results env previous_suggestions of
                          Inl e \<Rightarrow> Inl e
                        | Inr formatted_results \<Rightarrow>
                            Inr (SUBSEQUENT_ROUND_1 @ formatted_individuals @
                                 SUBSEQUENT_ROUND_2 @ formatted_results @
                                 SUBSEQUENT_ROUND_3 @ prompt_suffix))))))"

text \<open>Line 283.\<close>

definition threshold_info :: "'w env \<Rightarrow> pyval \<Rightarrow> pyval \<Rightarrow> pyval \<Rightarrow> string" where
  "threshold_info env threshold train_size test_size =
     ''Received threshold experiment start message: Threshold = '' @ str_of env threshold @
     '', Training set size = '' @ str_of env train_size @
     '', Test set size = '' @ str_of env test_size"

definition conversation_ended :: string where
  \<open>conversation_ended = ''
============Conversation ended.============
''\<close>

definition separator :: string where
  \<open>separator = ''==================================
''\<close>

text \<open>How one pass through the body of \<open>while True\<close> ends: at the next poll, at
  \<open>break\<close>, or with an exception that nothing in \<open>llama_main\<close> catches.\<close>

datatype 'w step = Continue "'w worker" | Break "'w worker" | Crash py_exn

text \<open>Lines 229-241.\<close>

definition handle_init :: "'w env \<Rightarrow> pyval \<Rightarrow> 'w worker \<Rightarrow> 'w step" where
  "handle_init env p s =
     (case payload_get p ''labels'' (PyList []) of
        Inl e \<Rightarrow> Crash e
      | Inr labels \<Rightarrow>
          (case payload_get p ''operators'' (PyList []) of
             Inl e \<Rightarrow> Crash e
           | Inr operators \<Rightarrow>
               (case new_list (heap (mach s)) of
                  (init_dialogs_setting, h1) \<Rightarrow>
                    (let system_prompt = create_system_prompt env labels operators resp_format_json;
                         h2 = append_turn init_dialogs_setting
                                \<lparr>role = ''system'', content = system_prompt\<rparr> h1
                     in Continue (s\<lparr>mach := (mach s)\<lparr>heap := h2\<rparr>,
                                    init_dialogs := init_dialogs_setting\<rparr>)))))"

text \<open>Lines 242-250.\<close>

definition handle_command :: "pyval \<Rightarrow> 'w worker \<Rightarrow> 'w step" where
  "handle_command p s =
     (case payload_get p ''command'' (PyStr []) of
        Inl e \<Rightarrow> Crash e
      | Inr command \<Rightarrow>
          (if command = PyStr ''exit''
           then Break (s\<lparr>out_f := out_f s @ conversation_ended\<rparr>)
           else Continue s))"

text \<open>Lines 251-278: the call of line 276 leaves \<open>max_retries\<close> at its default, 3, and
  its result only decides what is printed.\<close>

definition handle_evolution_update :: "'w env \<Rightarrow> string \<Rightarrow> pyval \<Rightarrow> 'w worker \<Rightarrow> 'w step" where
  "handle_evolution_update env model_name p s =
     (case round_prompt env p of
        Inl e \<Rightarrow> Crash e
      | Inr prompt \<Rightarrow>
          (let m1 = (mach s)\<lparr>heap := append_turn (dialogs s)
                                       \<lparr>role = ''user'', content = prompt\<rparr> (heap (mach s))\<rparr>
           in case process_llm_response env model_name (dialogs s) 3 m1 of
                (r, m2) \<Rightarrow> Continue (s\<lparr>mach := m2\<rparr>)))"

text \<open>Lines 279-287.\<close>

definition handle_threshold_start :: "'w env \<Rightarrow> pyval \<Rightarrow> 'w worker \<Rightarrow> 'w step" where
  "handle_threshold_start env p s =
     (case payload_get p ''threshold'' PyNone of
        Inl e \<Rightarrow> Crash e
      | Inr threshold \<Rightarrow>
          (case payload_get p ''train_size'' PyNone of
             Inl e \<Rightarrow> Crash e
           | Inr train_size \<Rightarrow>
               (case payload_get p ''test_size'' PyNone of
                  Inl e \<Rightarrow> Crash e
                | Inr test_size \<Rightarrow>
                    (case deepcopy (init_dialogs s) (heap (mach s)) of
                       (l, h1) \<Rightarrow>
                         Continue (s\<lparr>mach := (mach s)\<lparr>heap := h1\<rparr>,
                                     dialogs := l,
                                     out_f := out_f s @
                                       threshold_info env threshold train_size test_size @
                                       ''\<newline>''\<rparr>)))))"

definition handle_message :: "'w env \<Rightarrow> string \<Rightarrow> message \<Rightarrow> 'w worker \<Rightarrow> 'w step" where
  "handle_message env model_name m s =
     (case msg_type m of
        INIT \<Rightarrow> handle_init env (payload m) s
      | COMMAND \<Rightarrow> handle_command (payload m) s
      | EVOLUTION_UPDATE \<Rightarrow> handle_evolution_update env model_name (payload m) s
      | THRESHOLD_START \<Rightarrow> handle_threshold_start env (payload m) s
      | _ \<Rightarrow> Continue s)"

text \<open>Lines 293-297: what the final loop writes for one turn, and for all of them.\<close>

definition transcript_block :: "turn \<Rightarrow> string" where
  "transcript_block t =
     capitalize (role t) @ '': '' @ content t @ ''\<newline>\<newline>'' @ separator"

definition write_transcript :: "'w worker \<Rightarrow> 'w worker" where
  "write_transcript s =
     s\<lparr>out_f := out_f s @
                 concat (map transcript_block (turns_of (heap (mach s)) (dialogs s)))\<rparr>"

text \<open>
  A run of \<open>llama_main\<close> over the polls it makes: \<open>Polling\<close> when the run is still in
  the loop after the last of them, \<open>Exited\<close> when the loop was left by \<open>break\<close> and
  the transcript written, \<open>Crashed\<close> when an exception ended the process.
\<close>

datatype 'w outcome = Polling "'w worker" | Exited "'w worker" | Crashed py_exn

fun llama_loop :: "'w env \<Rightarrow> string \<Rightarrow> event list \<Rightarrow> 'w worker \<Rightarrow> 'w outcome" where
  "llama_loop env model_name [] s = Polling s"
| "llama_loop env model_name (QueueEmpty # evs) s = llama_loop env model_name evs s"
| "llama_loop env model_name (Undecodable # evs) s = llama_loop env model_name evs s"
| "llama_loop env model_name (Received m # evs) s =
     (case handle_message env model_name m s of
        Continue s' \<Rightarrow> llama_loop env model_name evs s'
      | Break s' \<Rightarrow> Exited (write_transcript s')
      | Crash e \<Rightarrow> Crashed e)"

text \<open>Lines 212-215: the file is opened empty, and the two names are bound to two new
  list objects.\<close>

definition initial_worker :: "'w \<Rightarrow> message list \<Rightarrow> 'w worker" where
  "initial_worker w q =
     \<lparr>mach = \<lparr>heap = \<lparr>lists = [[], []], dicts = []\<rparr>, world = w, queue_snd = q\<rparr>,
      init_dialogs = 0, dialogs = 1, out_f = []\<rparr>"

definition llama_main :: "'w env \<Rightarrow> string \<Rightarrow> 'w \<Rightarrow> message list \<Rightarrow> event list \<Rightarrow> 'w outcome" where
  "llama_main env model_name w q evs = llama_loop env model_name evs (initial_worker w q)"

section \<open>Well-formed stores\<close>

text \<open>A list reference is valid when it denotes a list object of the store whose
  elements denote dict objects of the store.\<close>

definition valid_list :: "store \<Rightarrow> addr \<Rightarrow> bool" where
  "valid_list st l =
     (l < length (lists st) \<and> list_all (\<lambda>d. d < length (dicts st)) (list_at st l))"

text \<open>The two names of \<open>llama_main\<close> denote valid, different list objects.\<close>

definition wf_worker :: "'w worker \<Rightarrow> bool" where
  "wf_worker s =
     (valid_list (heap (mach s)) (init_dialogs s) \<and>
      valid_list (heap (mach s)) (dialogs s) \<and>
      init_dialogs s \<noteq> dialogs s)"

text \<open>
  \<open>appends_to l st st'\<close>: from \<open>st\<close> to \<open>st'\<close> no list object was created, dict objects
  were only created, every list object but \<open>l\<close> is as it was, and \<open>l\<close> was extended at
  its end by dict objects of \<open>st'\<close>.
\<close>

definition appends_to :: "addr \<Rightarrow> store \<Rightarrow> store \<Rightarrow> bool" where
  "appends_to l st st' =
     (length (lists st') = length (lists st) \<and>
      prefix (dicts st) (dicts st') \<and>
      (\<forall>k. k \<noteq> l \<longrightarrow> list_at st' k = list_at st k) \<and>
      (\<exists>ds. list_at st' l = list_at st l @ ds \<and> (\<forall>d \<in> set ds. d < length (dicts st'))))"

text \<open>The events of a run that are not an \<open>INIT\<close> message.\<close>

fun not_init :: "event \<Rightarrow> bool" where
  "not_init (Received m) = (msg_type m \<noteq> INIT)"
| "not_init _ = True"

text \<open>\<open>has_key k v\<close>: \<open>v\<close> is a dict with the key \<open>k\<close>.\<close>

fun has_key :: "string \<Rightarrow> pyval \<Rightarrow> bool" where
  "has_key k (PyDict kvs) = (PyStr k \<in> set (map fst kvs))"
| "has_key k v = False"

text \<open>\<open>is_scalar v\<close>: \<open>v\<close> is \<open>None\<close>, a bool or a number.\<close>

fun is_scalar :: "pyval \<Rightarrow> bool" where
  "is_scalar PyNone = True"
| "is_scalar (PyBool _) = True"
| "is_scalar (PyInt _) = True"
| "is_scalar (PyFloat _) = True"
| "is_scalar (PyComplex _ _) = True"
| "is_scalar v = False"

section \<open>The transcript format in the words of the specification\<close>

text \<open>
  The specification describes the block of one turn as: the role label, a blank line,
  the content, a separator line. \<open>spec_transcript_block\<close> is that description, to be
  compared with \<open>transcript_block\<close>.
\<close>

definition spec_transcript_block :: "turn \<Rightarrow> string" where
  "spec_transcript_block t =
     capitalize (role t) @ ''\<newline>'' @ ''\<newline>'' @ content t @ ''\<newline>'' @ separator"

section \<open>An example environment\<close>

text \<open>
  A backend that answers from a script, one entry per call, and fails to connect once
  the script is used up; parsers that know the texts below and reject every other text.
  On the texts used in this theory (the ones defined below, \<open>null\<close> and
  \<open>I cannot help\<close>) they return the value, or raise the exception, that
  \<open>json.loads\<close> and \<open>ast.literal_eval\<close> do.
\<close>

definition scripted ::
  "backend_result list \<Rightarrow> string \<Rightarrow> turn list \<Rightarrow> backend_result \<times> backend_result list"
where
  "scripted w model_name messages =
     (case w of
        [] \<Rightarrow> (Raised (Exn OtherException ''Connection error.''), [])
      | r # rs \<Rightarrow> (r, rs))"

definition padded_null :: string where
  "padded_null = CHR 0xA0 # ''null'' @ [CHR 0x85]"

definition good_response :: string where
  \<open>good_response = ''{"suggestions":[{"expression":"gt(x0,x1)","reason":"simpler"}],"anomaly_score":0.2,"reason":"ok"}''\<close>

definition good_payload :: pyval where
  "good_payload =
     PyDict [(PyStr ''suggestions'',
              PyList [PyDict [(PyStr ''expression'', PyStr ''gt(x0,x1)''),
                              (PyStr ''reason'', PyStr ''simpler'')]]),
             (PyStr ''anomaly_score'', PyFloat 0x3FC999999999999A),
             (PyStr ''reason'', PyStr ''ok'')]"

definition no_reason_response :: string where
  \<open>no_reason_response = ''{"suggestions":[{"expression":"gt(x0,x1)"}]}''\<close>

definition no_reason_payload :: pyval where
  "no_reason_payload =
     PyDict [(PyStr ''suggestions'', PyList [PyDict [(PyStr ''expression'', PyStr ''gt(x0,x1)'')]])]"

definition no_suggestions_response :: string where
  \<open>no_suggestions_response = ''{"reason":"ok"}''\<close>

definition single_quoted_response :: string where
  \<open>single_quoted_response = ''{'suggestions': []}''\<close>

definition example_json_loads :: "string \<Rightarrow> py_exn + pyval" where
  "example_json_loads s =
     (if s = good_response then Inr good_payload
      else if s = no_reason_response then Inr no_reason_payload
      else if s = no_suggestions_response then Inr (PyDict [(PyStr ''reason'', PyStr ''ok'')])
      else if s = ''null'' then Inr PyNone
      else if s = single_quoted_response
        then Inl (Exn JSONDecodeError
                    ''Expecting property name enclosed in double quotes: line 1 column 2 (char 1)'')
      else Inl (Exn JSONDecodeError ''Expecting value: line 1 column 1 (char 0)''))"

definition example_literal_eval :: "string \<Rightarrow> py_exn + pyval" where
  "example_literal_eval s =
     (if s = single_quoted_response then Inr (PyDict [(PyStr ''suggestions'', PyList [])])
      else Inl (Exn SyntaxError ''invalid syntax (<unknown>, line 1)''))"

fun example_str :: "pyval \<Rightarrow> string" where
  "example_str PyNone = ''None''"
| "example_str (PyInt i) = string_of_int i"
| "example_str (PyStr s) = quoted s"
| "example_str (PyList xs) = ''['' @ join '', '' (map example_str xs) @ '']''"
| "example_str v = ''...''"

definition example_format_4f :: "pyval \<Rightarrow> py_exn + string" where
  "example_format_4f v =
     (case v of
        PyInt i \<Rightarrow> Inr (string_of_int i @ ''.0000'')
      | _ \<Rightarrow> Inl (Exn TypeError ''unsupported format string''))"

definition example_env :: "backend_result list env" where
  "example_env =
     \<lparr>llm_create = scripted, json_loads = example_json_loads,
      literal_eval = example_literal_eval, py_str = example_str,
      format_4f = example_format_4f\<rparr>"

text \<open>
  An environment whose strict parser runs into the recursion limit, as \<open>json.loads\<close>
  does on a deeply nested text (\<open>RecursionError\<close> is not a \<open>ValueError\<close>), and whose
  permissive parser would accept every text.
\<close>

definition recursion_env :: "backend_result list env" where
  "recursion_env =
     example_env
       \<lparr>json_loads :=
          (\<lambda>s. Inl (Exn OtherException
                       ''maximum recursion depth exceeded while decoding a JSON array from a unicode string'')),
        literal_eval := (\<lambda>s. Inr (PyDict [(PyStr ''suggestions'', PyList [])]))\<rparr>"

definition init_message :: message where
  "init_message =
     \<lparr>msg_type = INIT,
      payload = PyDict [(PyStr ''labels'', PyList [PyStr ''x0'', PyStr ''x1'']),
                        (PyStr ''operators'', PyList [PyStr ''and_'', PyStr ''gt''])]\<rparr>"

definition exit_message :: message where
  "exit_message = \<lparr>msg_type = COMMAND, payload = PyDict [(PyStr ''command'', PyStr ''exit'')]\<rparr>"

definition empty_update :: message where
  "empty_update =
     \<lparr>msg_type = EVOLUTION_UPDATE, payload = PyDict [(PyStr ''top_individuals'', PyList [])]\<rparr>"

definition threshold_message :: message where
  "threshold_message =
     \<lparr>msg_type = THRESHOLD_START,
      payload = PyDict [(PyStr ''threshold'', PyInt 1), (PyStr ''train_size'', PyInt 80),
                        (PyStr ''test_size'', PyInt 20)]\<rparr>"

text \<open>The worker after \<open>init_message\<close> as its first message, and after
  \<open>threshold_message\<close> as its second, with a backend whose script is empty.\<close>

definition system_turn :: turn where
  "system_turn =
     \<lparr>role = ''system'',
      content = create_system_prompt example_env (PyList [PyStr ''x0'', PyStr ''x1''])
                  (PyList [PyStr ''and_'', PyStr ''gt'']) resp_format_json\<rparr>"

definition after_init :: "backend_result list worker" where
  "after_init =
     \<lparr>mach = \<lparr>heap = \<lparr>lists = [[], [], [0]], dicts = [system_turn]\<rparr>,
              world = [], queue_snd = []\<rparr>,
      init_dialogs = 2, dialogs = 1, out_f = []\<rparr>"

definition after_threshold :: "backend_result list worker" where
  "after_threshold =
     \<lparr>mach = \<lparr>heap = \<lparr>lists = [[], [], [0], [1]], dicts = [system_turn, system_turn]\<rparr>,
              world = [], queue_snd = []\<rparr>,
      init_dialogs = 2, dialogs = 3,
      out_f = threshold_info example_env (PyInt 1) (PyInt 80) (PyInt 20) @ ''\<newline>''\<rparr>"

text \<open>The worker after \<open>empty_update\<close> as its first message, with a backend that
  answers \<open>good_response\<close>.\<close>

definition first_prompt :: string where
  "first_prompt = FIRST_ROUND_1 @ FIRST_ROUND_2 @ prompt_suffix"

definition after_update :: "backend_result list worker" where
  "after_update =
     \<lparr>mach = \<lparr>heap = \<lparr>lists = [[], [0, 1]],
                      dicts = [\<lparr>role = ''user'', content = first_prompt\<rparr>,
                               \<lparr>role = ''assistant'', content = good_response\<rparr>]\<rparr>,
              world = [],
              queue_snd = [\<lparr>msg_type = SUGGESTION, payload = good_payload\<rparr>]\<rparr>,
      init_dialogs = 0, dialogs = 1, out_f = []\<rparr>"

text \<open>The text of the file when the run has ended by \<open>exit\<close>.\<close>

definition transcript_of :: "'w outcome \<Rightarrow> string option" where
  "transcript_of r = (case r of Exited s \<Rightarrow> Some (out_f s) | _ \<Rightarrow> None)"

section \<open>The retry loop: unfolding and the outgoing queue\<close>

lemma attempt_queue:
  "attempt env mn d m = (r, m1) \<Longrightarrow>
     (case r of
        Sent \<Rightarrow> \<exists>p. queue_snd m1 = queue_snd m @ [\<lparr>msg_type = SUGGESTION, payload = p\<rparr>]
      | Failed e \<Rightarrow> queue_snd m1 = queue_snd m)"
proof -
  assume a: "attempt env mn d m = (r, m1)"
  obtain b w where c: "llm_create env (world m) mn (turns_of (heap m) d) = (b, w)"
    by (cases "llm_create env (world m) mn (turns_of (heap m) d)")
  show ?thesis
  proof (cases b)
    case (Raised e)
    with a c show ?thesis by (auto simp: attempt_def)
  next
    case (Content t)
    show ?thesis
    proof (cases "validate_response env (strip t)")
      case (Inl e)
      with a c Content show ?thesis by (auto simp: attempt_def Let_def)
    next
      case (Inr p)
      with a c Content show ?thesis by (auto simp: attempt_def Let_def)
    qed
  qed
qed

lemma attempt_Sent_queue:
  "attempt env mn d m = (Sent, m1) \<Longrightarrow>
     \<exists>p. queue_snd m1 = queue_snd m @ [\<lparr>msg_type = SUGGESTION, payload = p\<rparr>]"
  using attempt_queue [of env mn d m Sent m1] by simp

lemma attempt_Failed_queue:
  "attempt env mn d m = (Failed e, m1) \<Longrightarrow> queue_snd m1 = queue_snd m"
  using attempt_queue [of env mn d m "Failed e" m1] by simp

lemma feedback_queue: "queue_snd (feedback d e m) = queue_snd m"
  by (simp add: feedback_def)

lemma retry_loop_Sent:
  "retries < max_retries \<Longrightarrow> attempt env mn d m = (Sent, m1) \<Longrightarrow>
     retry_loop env mn d max_retries retries m = (Returned True, m1)"
  by (subst retry_loop.simps) simp

lemma retry_loop_retry:
  "retries + 1 < max_retries \<Longrightarrow> attempt env mn d m = (Failed e, m1) \<Longrightarrow>
     retry_loop env mn d max_retries retries m =
       retry_loop env mn d max_retries (retries + 1) (feedback d e m1)"
  by (subst retry_loop.simps) simp

lemma retry_loop_exhausted:
  "retries < max_retries \<Longrightarrow> \<not> retries + 1 < max_retries \<Longrightarrow>
   attempt env mn d m = (Failed e, m1) \<Longrightarrow>
     retry_loop env mn d max_retries retries m =
       (Returned False, m1\<lparr>queue_snd := queue_snd m1 @ [error_message e (retries + 1)]\<rparr>)"
  by (subst retry_loop.simps) simp

lemma retry_loop_none:
  "\<not> retries < max_retries \<Longrightarrow> retry_loop env mn d max_retries retries m = (ReturnedNone, m)"
  by (subst retry_loop.simps) simp

lemma retry_loop_one_envelope:
  "retries < max_retries \<Longrightarrow>
     \<exists>b e. fst (retry_loop env mn d max_retries retries m) = Returned b \<and>
           queue_snd (snd (retry_loop env mn d max_retries retries m)) = queue_snd m @ [e] \<and>
           msg_type e = (if b then SUGGESTION else ERROR)"
proof (induction env mn d max_retries retries m rule: retry_loop.induct)
  case (1 env mn d max_retries retries m)
  obtain r m1 where a: "attempt env mn d m = (r, m1)" by (cases "attempt env mn d m")
  show ?case
  proof (cases r)
    case Sent
    from a Sent have a': "attempt env mn d m = (Sent, m1)" by simp
    from attempt_Sent_queue [OF a'] obtain p where
      "queue_snd m1 = queue_snd m @ [\<lparr>msg_type = SUGGESTION, payload = p\<rparr>]" by blast
    then show ?thesis
      by (intro exI [of _ True] exI [of _ "\<lparr>msg_type = SUGGESTION, payload = p\<rparr>"])
         (simp add: retry_loop_Sent [OF "1.prems" a'])
  next
    case (Failed msg)
    from a Failed have a': "attempt env mn d m = (Failed msg, m1)" by simp
    note q = attempt_Failed_queue [OF a']
    show ?thesis
    proof (cases "retries + 1 < max_retries")
      case True
      from "1.IH" [OF "1.prems" a' [symmetric] refl True True]
      show ?thesis
        by (simp add: retry_loop_retry [OF True a'] feedback_queue q)
    next
      case False
      show ?thesis
        by (intro exI [of _ False] exI [of _ "error_message msg (retries + 1)"])
           (simp add: retry_loop_exhausted [OF "1.prems" False a'] q error_message_def)
    qed
  qed
qed

section \<open>The example environment, evaluated\<close>

lemma strip_null: "strip ''null'' = ''null''"
  by (simp add: strip_def is_space_def)

lemma strip_good_response: "strip good_response = good_response"
  by (simp add: strip_def is_space_def good_response_def)

lemma strip_no_reason_response: "strip no_reason_response = no_reason_response"
  by (simp add: strip_def is_space_def no_reason_response_def)

lemma strip_refusal: "strip ''I cannot help'' = ''I cannot help''"
  by (simp add: strip_def is_space_def)

lemma example_validate_good: "validate_response example_env good_response = Inr good_payload"
  by (simp add: validate_response_def parse_payload_def example_env_def example_json_loads_def
      check_payload_def good_payload_def)

lemma example_validate_null:
  "validate_response example_env ''null'' =
     Inl (Exn TypeError (''argument of type '' @ quoted ''NoneType'' @ '' is not iterable''))"
  by (simp add: validate_response_def parse_payload_def example_env_def example_json_loads_def
      check_payload_def good_response_def no_reason_response_def no_suggestions_response_def)

lemma example_validate_no_reason:
  "validate_response example_env no_reason_response = Inl missing_fields"
  by (simp add: validate_response_def parse_payload_def example_env_def example_json_loads_def
      check_payload_def good_response_def no_reason_response_def no_suggestions_response_def no_reason_payload_def)

lemma example_validate_refusal:
  "validate_response example_env ''I cannot help'' =
     Inl (Exn ValueError (''Cannot parse response format: '' @ ''invalid syntax (<unknown>, line 1)''))"
  by (simp add: validate_response_def parse_payload_def example_env_def example_json_loads_def
      example_literal_eval_def good_response_def no_reason_response_def no_suggestions_response_def
      single_quoted_response_def)

lemma scripted_raised:
  "world m = Raised e # rest \<Longrightarrow>
     attempt example_env mn d m = (Failed (error_msg_of e), m\<lparr>world := rest\<rparr>)"
  by (simp add: attempt_def example_env_def scripted_def)

lemma scripted_invalid:
  "world m = Content c # rest \<Longrightarrow> validate_response example_env (strip c) = Inl e \<Longrightarrow>
     attempt example_env mn d m =
       (Failed (error_msg_of e),
        m\<lparr>world := rest,
          heap := append_turn d \<lparr>role = ''assistant'', content = strip c\<rparr> (heap m)\<rparr>)"
  by (simp add: attempt_def Let_def) (simp add: example_env_def scripted_def)

lemma scripted_valid:
  "world m = Content c # rest \<Longrightarrow> validate_response example_env (strip c) = Inr p \<Longrightarrow>
     attempt example_env mn d m =
       (Sent,
        m\<lparr>world := rest,
          heap := append_turn d \<lparr>role = ''assistant'', content = strip c\<rparr> (heap m),
          queue_snd := queue_snd m @ [\<lparr>msg_type = SUGGESTION, payload = p\<rparr>]\<rparr>)"
  by (simp add: attempt_def Let_def) (simp add: example_env_def scripted_def)

lemma feedback_world: "world (feedback d e m) = world m"
  by (simp add: feedback_def)

lemma round_prompt_empty_update:
  "round_prompt env (payload empty_update) = Inr (FIRST_ROUND_1 @ FIRST_ROUND_2 @ prompt_suffix)"
  by (simp add: round_prompt_def empty_update_def payload_get_def format_top_individuals_def)

section \<open>One envelope per call\<close>

text \<open>
  Claim C1. For a well-formed \<open>EVOLUTION_UPDATE\<close> (one whose round prompt is built
  without an exception), the dispatcher appends the prompt and calls
  \<open>process_llm_response\<close> once with the default \<open>max_retries = 3\<close>; whatever the
  backend does, the call returns and the outgoing queue has grown by exactly one envelope,
  a \<open>SUGGESTION\<close> when the call returns \<open>True\<close> and an \<open>ERROR\<close> when it returns
  \<open>False\<close>.
\<close>

theorem evolution_update_one_envelope:
  assumes "round_prompt env p = Inr prompt"
  shows "\<exists>r m2 e.
           process_llm_response env mn (dialogs s) 3
             ((mach s)\<lparr>heap := append_turn (dialogs s) \<lparr>role = ''user'', content = prompt\<rparr>
                                  (heap (mach s))\<rparr>) = (r, m2) \<and>
           handle_message env mn \<lparr>msg_type = EVOLUTION_UPDATE, payload = p\<rparr> s =
             Continue (s\<lparr>mach := m2\<rparr>) \<and>
           queue_snd m2 = queue_snd (mach s) @ [e] \<and>
           (r = Returned True \<and> msg_type e = SUGGESTION \<or>
            r = Returned False \<and> msg_type e = ERROR)"
proof -
  define m1 where
    "m1 = (mach s)\<lparr>heap := append_turn (dialogs s) \<lparr>role = ''user'', content = prompt\<rparr>
                               (heap (mach s))\<rparr>"
  obtain r m2 where run: "process_llm_response env mn (dialogs s) 3 m1 = (r, m2)"
    by (cases "process_llm_response env mn (dialogs s) 3 m1")
  have "(0::int) < 3" by simp
  from retry_loop_one_envelope [OF this, of env mn "dialogs s" m1]
  obtain b e where
    b: "r = Returned b" and
    q: "queue_snd m2 = queue_snd m1 @ [e]" and
    k: "msg_type e = (if b then SUGGESTION else ERROR)"
    using run by (auto simp: process_llm_response_def)
  have h: "handle_message env mn \<lparr>msg_type = EVOLUTION_UPDATE, payload = p\<rparr> s =
             Continue (s\<lparr>mach := m2\<rparr>)"
    using assms run
    by (simp add: handle_message_def handle_evolution_update_def m1_def Let_def)
  have q': "queue_snd m2 = queue_snd (mach s) @ [e]"
    using q by (simp add: m1_def)
  show ?thesis
    using run h q' b k unfolding m1_def
    by (intro exI [of _ r] exI [of _ m2] exI [of _ e]) (cases b; simp)
qed

theorem evolution_update_one_envelope_witness:
  "round_prompt example_env (payload empty_update) =
     Inr (FIRST_ROUND_1 @ FIRST_ROUND_2 @ prompt_suffix) \<and>
   (\<exists>r m2 e.
      process_llm_response example_env ''Qwen/Qwen2.5-72B-Instruct''
        (dialogs (initial_worker [Content good_response] [])) 3
        ((mach (initial_worker [Content good_response] []))
           \<lparr>heap := append_turn (dialogs (initial_worker [Content good_response] []))
                      \<lparr>role = ''user'', content = FIRST_ROUND_1 @ FIRST_ROUND_2 @ prompt_suffix\<rparr>
                      (heap (mach (initial_worker [Content good_response] [])))\<rparr>) = (r, m2) \<and>
      handle_message example_env ''Qwen/Qwen2.5-72B-Instruct''
        \<lparr>msg_type = EVOLUTION_UPDATE, payload = payload empty_update\<rparr>
        (initial_worker [Content good_response] []) =
        Continue ((initial_worker [Content good_response] [])\<lparr>mach := m2\<rparr>) \<and>
      queue_snd m2 = queue_snd (mach (initial_worker [Content good_response] [])) @ [e] \<and>
      (r = Returned True \<and> msg_type e = SUGGESTION \<or>
       r = Returned False \<and> msg_type e = ERROR))"
  using evolution_update_one_envelope [OF round_prompt_empty_update,
      of example_env "''Qwen/Qwen2.5-72B-Instruct''" "initial_worker [Content good_response] []"]
    round_prompt_empty_update [of example_env]
  by simp

text \<open>
  Claim C2. With \<open>max_retries = 3\<close>, when the first attempt fails, the second attempt
  (made after the feedback turn) fails, and the third fails as well, the call returns
  \<open>False\<close> and has put exactly one envelope on the queue: an \<open>ERROR\<close> whose payload
  holds the error message of the third attempt and \<open>retries = 3\<close>. No \<open>SUGGESTION\<close>
  is put.
\<close>

theorem three_failures_one_error:
  assumes "attempt env mn d m = (Failed e1, m1)"
      and "attempt env mn d (feedback d e1 m1) = (Failed e2, m2)"
      and "attempt env mn d (feedback d e2 m2) = (Failed e3, m3)"
  shows "process_llm_response env mn d 3 m =
           (Returned False, m3\<lparr>queue_snd := queue_snd m3 @ [error_message e3 3]\<rparr>) \<and>
         queue_snd (snd (process_llm_response env mn d 3 m)) =
           queue_snd m @
           [\<lparr>msg_type = ERROR,
             payload = PyDict [(PyStr ''error'', PyStr e3), (PyStr ''retries'', PyInt 3)]\<rparr>]"
proof -
  have s1: "retry_loop env mn d 3 0 m = retry_loop env mn d 3 1 (feedback d e1 m1)"
    using retry_loop_retry [of 0 3 env mn d m e1 m1] assms(1) by simp
  have s2: "retry_loop env mn d 3 1 (feedback d e1 m1) =
              retry_loop env mn d 3 2 (feedback d e2 m2)"
    using retry_loop_retry [of 1 3 env mn d "feedback d e1 m1" e2 m2] assms(2) by simp
  have s3: "retry_loop env mn d 3 2 (feedback d e2 m2) =
              (Returned False, m3\<lparr>queue_snd := queue_snd m3 @ [error_message e3 3]\<rparr>)"
    using retry_loop_exhausted [of 2 3 env mn d "feedback d e2 m2" e3 m3] assms(3) by simp
  have run: "process_llm_response env mn d 3 m =
               (Returned False, m3\<lparr>queue_snd := queue_snd m3 @ [error_message e3 3]\<rparr>)"
    by (simp add: process_llm_response_def s1 s2 s3)
  have "queue_snd m3 = queue_snd m"
    using attempt_Failed_queue [OF assms(1)] attempt_Failed_queue [OF assms(2)]
      attempt_Failed_queue [OF assms(3)]
    by (simp add: feedback_queue)
  with run show ?thesis by (simp add: error_message_def)
qed

theorem three_failures_one_error_witness:
  "\<exists>m1 m2 m3.
     attempt example_env ''Qwen/Qwen2.5-72B-Instruct'' 1
       \<lparr>heap = \<lparr>lists = [[], []], dicts = []\<rparr>,
        world = [Content ''null'', Content no_reason_response, Content ''I cannot help''],
        queue_snd = []\<rparr> =
       (Failed (''Unknown error: argument of type '' @ quoted ''NoneType'' @ '' is not iterable''), m1) \<and>
     attempt example_env ''Qwen/Qwen2.5-72B-Instruct'' 1
       (feedback 1 (''Unknown error: argument of type '' @ quoted ''NoneType'' @ '' is not iterable'') m1) =
       (Failed (''Response format error: '' @ msg missing_fields), m2) \<and>
     attempt example_env ''Qwen/Qwen2.5-72B-Instruct'' 1
       (feedback 1 (''Response format error: '' @ msg missing_fields) m2) =
       (Failed ''Response format error: Cannot parse response format: invalid syntax (<unknown>, line 1)'', m3) \<and>
     process_llm_response example_env ''Qwen/Qwen2.5-72B-Instruct'' 1 3
       \<lparr>heap = \<lparr>lists = [[], []], dicts = []\<rparr>,
        world = [Content ''null'', Content no_reason_response, Content ''I cannot help''],
        queue_snd = []\<rparr> =
       (Returned False,
        m3\<lparr>queue_snd := queue_snd m3 @
             [error_message ''Response format error: Cannot parse response format: invalid syntax (<unknown>, line 1)'' 3]\<rparr>) \<and>
     queue_snd (snd (process_llm_response example_env ''Qwen/Qwen2.5-72B-Instruct'' 1 3
       \<lparr>heap = \<lparr>lists = [[], []], dicts = []\<rparr>,
        world = [Content ''null'', Content no_reason_response, Content ''I cannot help''],
        queue_snd = []\<rparr>)) =
       [\<lparr>msg_type = ERROR,
         payload = PyDict [(PyStr ''error'',
                            PyStr ''Response format error: Cannot parse response format: invalid syntax (<unknown>, line 1)''),
                           (PyStr ''retries'', PyInt 3)]\<rparr>]"
proof -
  let ?mn = "''Qwen/Qwen2.5-72B-Instruct''"
  let ?e1 = "''Unknown error: argument of type '' @ quoted ''NoneType'' @ '' is not iterable''"
  let ?e2 = "''Response format error: '' @ msg missing_fields"
  let ?e3 = "''Response format error: Cannot parse response format: invalid syntax (<unknown>, line 1)''"
  let ?m0 = "\<lparr>heap = \<lparr>lists = [[], []], dicts = []\<rparr>,
              world = [Content ''null'', Content no_reason_response, Content ''I cannot help''],
              queue_snd = []\<rparr> :: backend_result list machine"
  define m1 where
    "m1 = ?m0\<lparr>world := [Content no_reason_response, Content ''I cannot help''],
              heap := append_turn 1 \<lparr>role = ''assistant'', content = strip ''null''\<rparr> (heap ?m0)\<rparr>"
  define m2 where
    "m2 = (feedback 1 ?e1 m1)\<lparr>world := [Content ''I cannot help''],
              heap := append_turn 1 \<lparr>role = ''assistant'', content = strip no_reason_response\<rparr>
                        (heap (feedback 1 ?e1 m1))\<rparr>"
  define m3 where
    "m3 = (feedback 1 ?e2 m2)\<lparr>world := [],
              heap := append_turn 1 \<lparr>role = ''assistant'', content = strip ''I cannot help''\<rparr>
                        (heap (feedback 1 ?e2 m2))\<rparr>"
  have a1: "attempt example_env ?mn 1 ?m0 = (Failed ?e1, m1)"
    using scripted_invalid [of ?m0 "''null''" _ _ ?mn 1] example_validate_null
    by (simp add: strip_null error_msg_of_def is_ValueError_def m1_def)
  have a2: "attempt example_env ?mn 1 (feedback 1 ?e1 m1) = (Failed ?e2, m2)"
    using scripted_invalid [of "feedback 1 ?e1 m1" no_reason_response _ missing_fields ?mn 1]
      example_validate_no_reason
    by (simp add: strip_no_reason_response error_msg_of_def is_ValueError_def m2_def
        feedback_world m1_def missing_fields_def)
  have a3: "attempt example_env ?mn 1 (feedback 1 ?e2 m2) = (Failed ?e3, m3)"
    using scripted_invalid [of "feedback 1 ?e2 m2" "''I cannot help''" _ _ ?mn 1]
      example_validate_refusal
    by (simp add: strip_refusal error_msg_of_def is_ValueError_def m3_def feedback_world m2_def)
  note r = three_failures_one_error [OF a1 a2 a3]
  have q: "queue_snd (snd (process_llm_response example_env ?mn 1 3 ?m0)) =
             [\<lparr>msg_type = ERROR,
               payload = PyDict [(PyStr ''error'', PyStr ?e3), (PyStr ''retries'', PyInt 3)]\<rparr>]"
    using r [THEN conjunct2] by simp
  show ?thesis
    by (intro exI [of _ m1] exI [of _ m2] exI [of _ m3] conjI)
       (rule a1, rule a2, rule a3, rule r [THEN conjunct1], rule q)
qed

section \<open>The store under appends\<close>

lemma dict_at_prefix:
  "d < length (dicts st) \<Longrightarrow> prefix (dicts st) (dicts st') \<Longrightarrow> dict_at st' d = dict_at st d"
  by (auto simp: dict_at_def prefix_def nth_append)

lemma appends_to_refl: "appends_to l st st"
  by (simp add: appends_to_def)

lemma appends_to_trans:
  assumes "appends_to l st1 st2" and "appends_to l st2 st3"
  shows "appends_to l st1 st3"
proof -
  from assms(1) obtain ds1 where
    1: "length (lists st2) = length (lists st1)" "prefix (dicts st1) (dicts st2)"
       "\<And>k. k \<noteq> l \<Longrightarrow> list_at st2 k = list_at st1 k"
       "list_at st2 l = list_at st1 l @ ds1" "\<And>d. d \<in> set ds1 \<Longrightarrow> d < length (dicts st2)"
    unfolding appends_to_def by blast
  from assms(2) obtain ds2 where
    2: "length (lists st3) = length (lists st2)" "prefix (dicts st2) (dicts st3)"
       "\<And>k. k \<noteq> l \<Longrightarrow> list_at st3 k = list_at st2 k"
       "list_at st3 l = list_at st2 l @ ds2" "\<And>d. d \<in> set ds2 \<Longrightarrow> d < length (dicts st3)"
    unfolding appends_to_def by blast
  have len: "length (dicts st2) \<le> length (dicts st3)"
    using 2(2) by (rule prefix_length_le)
  have "list_at st3 l = list_at st1 l @ (ds1 @ ds2)"
    using 1(4) 2(4) by simp
  moreover have "\<forall>d \<in> set (ds1 @ ds2). d < length (dicts st3)"
    using 1(5) 2(5) len by fastforce
  moreover have "prefix (dicts st1) (dicts st3)"
    using 1(2) 2(2) by (rule prefix_order.trans)
  moreover have "\<forall>k. k \<noteq> l \<longrightarrow> list_at st3 k = list_at st1 k"
    using 1(3) 2(3) by simp
  ultimately show ?thesis
    unfolding appends_to_def using 1(1) 2(1)
    by (intro conjI exI [of _ "ds1 @ ds2"]) simp_all
qed

lemma appends_to_append_turn: "appends_to l st (append_turn l t st)"
  unfolding appends_to_def append_turn_def new_dict_def list_append_def list_at_def
  by (auto simp: nth_list_update)

lemma valid_list_appends_to:
  assumes "valid_list st k" and "appends_to l st st'"
  shows "valid_list st' k"
proof -
  from assms(2) obtain ds where
    a: "length (lists st') = length (lists st)" "prefix (dicts st) (dicts st')"
       "\<And>j. j \<noteq> l \<Longrightarrow> list_at st' j = list_at st j"
       "list_at st' l = list_at st l @ ds" "\<And>d. d \<in> set ds \<Longrightarrow> d < length (dicts st')"
    unfolding appends_to_def by blast
  have len: "length (dicts st) \<le> length (dicts st')"
    using a(2) by (rule prefix_length_le)
  from assms(1) have k: "k < length (lists st)"
    and el: "\<And>d. d \<in> set (list_at st k) \<Longrightarrow> d < length (dicts st)"
    by (auto simp: valid_list_def list_all_iff)
  show ?thesis
  proof (cases "k = l")
    case True
    then show ?thesis
      using k a(1) a(4) a(5) el len by (fastforce simp: valid_list_def list_all_iff)
  next
    case False
    then show ?thesis
      using k a(1) a(3) el len by (fastforce simp: valid_list_def list_all_iff)
  qed
qed

lemma turns_of_appends_to_other:
  assumes "valid_list st k" and "k \<noteq> l" and "appends_to l st st'"
  shows "turns_of st' k = turns_of st k"
proof -
  from assms(3) have p: "prefix (dicts st) (dicts st')" and
    e: "list_at st' k = list_at st k"
    using assms(2) unfolding appends_to_def by auto
  from assms(1) have "\<forall>d \<in> set (list_at st k). d < length (dicts st)"
    by (simp add: valid_list_def list_all_iff)
  then show ?thesis
    unfolding turns_of_def e using p by (auto simp: dict_at_prefix)
qed

lemma turns_of_appends_to_prefix:
  assumes "valid_list st l" and "appends_to l st st'"
  shows "prefix (turns_of st l) (turns_of st' l)"
proof -
  from assms(2) obtain ds where p: "prefix (dicts st) (dicts st')" and
    e: "list_at st' l = list_at st l @ ds"
    unfolding appends_to_def by auto
  from assms(1) have "\<forall>d \<in> set (list_at st l). d < length (dicts st)"
    by (simp add: valid_list_def list_all_iff)
  then have m: "map (dict_at st') (list_at st l) = map (dict_at st) (list_at st l)"
    using p by (auto simp: dict_at_prefix)
  show ?thesis
    unfolding turns_of_def e map_append m by simp
qed

lemma turns_of_append_turn:
  assumes "valid_list st l"
  shows "turns_of (append_turn l t st) l = turns_of st l @ [t]"
proof -
  from assms have l: "l < length (lists st)"
    and el: "\<forall>d \<in> set (list_at st l). d < length (dicts st)"
    by (auto simp: valid_list_def list_all_iff)
  have 1: "list_at (append_turn l t st) l = list_at st l @ [length (dicts st)]"
    using l by (simp add: append_turn_def new_dict_def list_append_def list_at_def)
  have 2: "dicts (append_turn l t st) = dicts st @ [t]"
    by (simp add: append_turn_def new_dict_def list_append_def)
  have 3: "map (dict_at (append_turn l t st)) (list_at st l) = map (dict_at st) (list_at st l)"
    using el by (auto simp: dict_at_def 2 nth_append)
  have 4: "dict_at (append_turn l t st) (length (dicts st)) = t"
    by (simp add: dict_at_def 2)
  show ?thesis
    by (simp add: turns_of_def 1 3 4)
qed

lemma attempt_cases:
  obtains (raised) e w where
      "llm_create env (world m) mn (turns_of (heap m) d) = (Raised e, w)"
      "attempt env mn d m = (Failed (error_msg_of e), m\<lparr>world := w\<rparr>)"
  | (invalid) c w e where
      "llm_create env (world m) mn (turns_of (heap m) d) = (Content c, w)"
      "validate_response env (strip c) = Inl e"
      "attempt env mn d m =
         (Failed (error_msg_of e),
          m\<lparr>world := w,
            heap := append_turn d \<lparr>role = ''assistant'', content = strip c\<rparr> (heap m)\<rparr>)"
  | (valid) c w p where
      "llm_create env (world m) mn (turns_of (heap m) d) = (Content c, w)"
      "validate_response env (strip c) = Inr p"
      "attempt env mn d m =
         (Sent,
          m\<lparr>world := w,
            heap := append_turn d \<lparr>role = ''assistant'', content = strip c\<rparr> (heap m),
            queue_snd := queue_snd m @ [\<lparr>msg_type = SUGGESTION, payload = p\<rparr>]\<rparr>)"
proof -
  obtain b w where c: "llm_create env (world m) mn (turns_of (heap m) d) = (b, w)"
    by (cases "llm_create env (world m) mn (turns_of (heap m) d)")
  show ?thesis
  proof (cases b)
    case (Raised e)
    with c show ?thesis by (intro raised [of e w]) (simp_all add: attempt_def)
  next
    case (Content t)
    show ?thesis
    proof (cases "validate_response env (strip t)")
      case (Inl e)
      with c Content show ?thesis
        by (intro invalid [of t w e]) (simp_all add: attempt_def Let_def)
    next
      case (Inr p)
      with c Content show ?thesis
        by (intro valid [of t w p]) (simp_all add: attempt_def Let_def)
    qed
  qed
qed

lemma attempt_appends_to: "appends_to d (heap m) (heap (snd (attempt env mn d m)))"
  by (cases rule: attempt_cases [of env m mn d])
     (simp_all add: appends_to_refl appends_to_append_turn)

lemma feedback_appends_to: "appends_to d (heap m) (heap (feedback d e m))"
  by (simp add: feedback_def appends_to_append_turn)

lemma retry_loop_appends_to:
  "appends_to d (heap m) (heap (snd (retry_loop env mn d max_retries retries m)))"
proof (induction env mn d max_retries retries m rule: retry_loop.induct)
  case (1 env mn d max_retries retries m)
  obtain r m1 where a: "attempt env mn d m = (r, m1)" by (cases "attempt env mn d m")
  have h1: "appends_to d (heap m) (heap m1)"
    using attempt_appends_to [of d m env mn] a by simp
  show ?case
  proof (cases "retries < max_retries")
    case False
    then show ?thesis by (simp add: retry_loop_none appends_to_refl)
  next
    case lt: True
    show ?thesis
    proof (cases r)
      case Sent
      with a have a': "attempt env mn d m = (Sent, m1)" by simp
      show ?thesis using h1 by (simp add: retry_loop_Sent [OF lt a'])
    next
      case (Failed msg)
      with a have a': "attempt env mn d m = (Failed msg, m1)" by simp
      show ?thesis
      proof (cases "retries + 1 < max_retries")
        case True
        have "appends_to d (heap m1) (heap (feedback d msg m1))"
          by (rule feedback_appends_to)
        with h1 have "appends_to d (heap m) (heap (feedback d msg m1))"
          by (rule appends_to_trans)
        from this "1.IH" [OF lt a' [symmetric] refl True]
        show ?thesis
          unfolding retry_loop_retry [OF True a'] by (rule appends_to_trans)
      next
        case False
        show ?thesis using h1 by (simp add: retry_loop_exhausted [OF lt False a'])
      qed
    qed
  qed
qed

lemma process_llm_response_appends_to:
  "appends_to d (heap m) (heap (snd (process_llm_response env mn d max_retries m)))"
  by (simp add: process_llm_response_def retry_loop_appends_to)

lemma three_attempts_fail:
  assumes "attempt env mn d m = (Failed e1, m1)"
      and "attempt env mn d (feedback d e1 m1) = (Failed e2, m2)"
      and "attempt env mn d (feedback d e2 m2) = (Failed e3, m3)"
  shows "process_llm_response env mn d 3 m =
           (Returned False, m3\<lparr>queue_snd := queue_snd m3 @ [error_message e3 3]\<rparr>)"
proof -
  have s1: "retry_loop env mn d 3 0 m = retry_loop env mn d 3 1 (feedback d e1 m1)"
    using retry_loop_retry [of 0 3 env mn d m e1 m1] assms(1) by simp
  have s2: "retry_loop env mn d 3 1 (feedback d e1 m1) =
              retry_loop env mn d 3 2 (feedback d e2 m2)"
    using retry_loop_retry [of 1 3 env mn d "feedback d e1 m1" e2 m2] assms(2) by simp
  have s3: "retry_loop env mn d 3 2 (feedback d e2 m2) =
              (Returned False, m3\<lparr>queue_snd := queue_snd m3 @ [error_message e3 3]\<rparr>)"
    using retry_loop_exhausted [of 2 3 env mn d "feedback d e2 m2" e3 m3] assms(3) by simp
  show ?thesis
    by (simp add: process_llm_response_def s1 s2 s3)
qed

lemma scripted_exhausted:
  "world m = [] \<Longrightarrow>
     attempt example_env mn d m = (Failed ''Unknown error: Connection error.'', m)"
  by (simp add: attempt_def example_env_def scripted_def error_msg_of_def is_ValueError_def)

lemma attempt_turns:
  assumes "valid_list (heap m) d"
  shows "turns_of (heap (snd (attempt env mn d m))) d =
           turns_of (heap m) d @
           (case fst (llm_create env (world m) mn (turns_of (heap m) d)) of
              Content c \<Rightarrow> [\<lparr>role = ''assistant'', content = strip c\<rparr>]
            | Raised e \<Rightarrow> [])"
  by (cases rule: attempt_cases [of env m mn d])
     (simp_all add: turns_of_append_turn [OF assms])

lemma feedback_turns:
  assumes "valid_list (heap m) d"
  shows "turns_of (heap (feedback d e m)) d =
           turns_of (heap m) d @ [\<lparr>role = ''user'', content = error_feedback e\<rparr>]"
  by (simp add: feedback_def turns_of_append_turn [OF assms])

section \<open>Totality of the call and the handling of backend failures\<close>

text \<open>
  Claim C9, as amended. For \<open>max_retries \<ge> 1\<close> the call returns \<open>True\<close> or \<open>False\<close>,
  whatever the backend returns or raises. When the backend invocation raises, the attempt
  fails with the message \<open>Response format error: ...\<close> if the exception is a
  \<open>ValueError\<close> and \<open>Unknown error: ...\<close> otherwise. A failed attempt, whatever made
  it fail, is counted by the one counter \<open>retries\<close>: the loop goes on with
  \<open>retries + 1\<close> after a feedback turn, or ends with the \<open>ERROR\<close> envelope.
\<close>

theorem process_llm_response_returns_bool:
  "(0 < max_retries \<longrightarrow>
      (\<exists>b. fst (process_llm_response env mn d max_retries m) = Returned b)) \<and>
   (\<forall>e w. llm_create env (world m) mn (turns_of (heap m) d) = (Raised e, w) \<longrightarrow>
      attempt env mn d m =
        (Failed ((if is_ValueError (cls e) then ''Response format error: ''
                  else ''Unknown error: '') @ msg e),
         m\<lparr>world := w\<rparr>)) \<and>
   (\<forall>retries e m1. retries < max_retries \<and> attempt env mn d m = (Failed e, m1) \<longrightarrow>
      retry_loop env mn d max_retries retries m =
        (if retries + 1 < max_retries
         then retry_loop env mn d max_retries (retries + 1) (feedback d e m1)
         else (Returned False,
               m1\<lparr>queue_snd := queue_snd m1 @ [error_message e (retries + 1)]\<rparr>)))"
proof (intro conjI allI impI)
  assume "0 < max_retries"
  from retry_loop_one_envelope [OF this, of env mn d m]
  show "\<exists>b. fst (process_llm_response env mn d max_retries m) = Returned b"
    by (auto simp: process_llm_response_def)
next
  fix e w
  assume "llm_create env (world m) mn (turns_of (heap m) d) = (Raised e, w)"
  then show "attempt env mn d m =
      (Failed ((if is_ValueError (cls e) then ''Response format error: ''
                else ''Unknown error: '') @ msg e), m\<lparr>world := w\<rparr>)"
    by (simp add: attempt_def error_msg_of_def)
next
  fix retries e m1
  assume a: "retries < max_retries \<and> attempt env mn d m = (Failed e, m1)"
  show "retry_loop env mn d max_retries retries m =
        (if retries + 1 < max_retries
         then retry_loop env mn d max_retries (retries + 1) (feedback d e m1)
         else (Returned False,
               m1\<lparr>queue_snd := queue_snd m1 @ [error_message e (retries + 1)]\<rparr>))"
  proof (cases "retries + 1 < max_retries")
    case True
    then show ?thesis using a by (simp add: retry_loop_retry)
  next
    case False
    then show ?thesis using a by (simp add: retry_loop_exhausted)
  qed
qed

theorem process_llm_response_returns_bool_witness:
  "(0::int) < 3 \<and>
   (\<exists>b. fst (process_llm_response example_env ''Qwen/Qwen2.5-72B-Instruct'' 1 3
              \<lparr>heap = \<lparr>lists = [[], []], dicts = []\<rparr>,
               world = [Raised (Exn OtherException ''Connection error.''), Content good_response],
               queue_snd = []\<rparr>) = Returned b) \<and>
   llm_create example_env [Raised (Exn OtherException ''Connection error.''), Content good_response]
     ''Qwen/Qwen2.5-72B-Instruct'' [] =
     (Raised (Exn OtherException ''Connection error.''), [Content good_response]) \<and>
   attempt example_env ''Qwen/Qwen2.5-72B-Instruct'' 1
     \<lparr>heap = \<lparr>lists = [[], []], dicts = []\<rparr>,
      world = [Raised (Exn OtherException ''Connection error.''), Content good_response],
      queue_snd = []\<rparr> =
     (Failed ''Unknown error: Connection error.'',
      \<lparr>heap = \<lparr>lists = [[], []], dicts = []\<rparr>, world = [Content good_response],
       queue_snd = []\<rparr>) \<and>
   retry_loop example_env ''Qwen/Qwen2.5-72B-Instruct'' 1 3 0
     \<lparr>heap = \<lparr>lists = [[], []], dicts = []\<rparr>,
      world = [Raised (Exn OtherException ''Connection error.''), Content good_response],
      queue_snd = []\<rparr> =
     retry_loop example_env ''Qwen/Qwen2.5-72B-Instruct'' 1 3 1
       (feedback 1 ''Unknown error: Connection error.''
          \<lparr>heap = \<lparr>lists = [[], []], dicts = []\<rparr>, world = [Content good_response],
           queue_snd = []\<rparr>)"
proof -
  let ?mn = "''Qwen/Qwen2.5-72B-Instruct''"
  let ?e = "Exn OtherException ''Connection error.''"
  let ?m0 = "\<lparr>heap = \<lparr>lists = [[], []], dicts = []\<rparr>,
              world = [Raised ?e, Content good_response],
              queue_snd = []\<rparr> :: backend_result list machine"
  let ?m1 = "\<lparr>heap = \<lparr>lists = [[], []], dicts = []\<rparr>, world = [Content good_response],
              queue_snd = []\<rparr> :: backend_result list machine"
  note t = process_llm_response_returns_bool [of 3 example_env ?mn 1 ?m0]
  have c: "llm_create example_env [Raised ?e, Content good_response] ?mn [] =
             (Raised ?e, [Content good_response])"
    by (simp add: example_env_def scripted_def)
  have a: "attempt example_env ?mn 1 ?m0 = (Failed ''Unknown error: Connection error.'', ?m1)"
    using t [THEN conjunct2, THEN conjunct1, rule_format, of ?e "[Content good_response]"] c
    by (simp add: turns_of_def list_at_def is_ValueError_def)
  have r: "retry_loop example_env ?mn 1 3 0 ?m0 =
             retry_loop example_env ?mn 1 3 1 (feedback 1 ''Unknown error: Connection error.'' ?m1)"
    using t [THEN conjunct2, THEN conjunct2, rule_format, of 0 "''Unknown error: Connection error.''" ?m1] a
    by simp
  have b: "\<exists>b. fst (process_llm_response example_env ?mn 1 3 ?m0) = Returned b"
    using t [THEN conjunct1] by simp
  show ?thesis
    by (intro conjI) (simp, rule b, rule c, rule a, rule r)
qed

text \<open>
  The claim as stated fails: a \<open>ValueError\<close> raised by the backend invocation is caught
  by the first handler (line 179) and reported as a response format error, not as an
  unknown error.
\<close>

theorem backend_value_error_counterexample:
  "attempt example_env ''Qwen/Qwen2.5-72B-Instruct'' 1
     \<lparr>heap = \<lparr>lists = [[], []], dicts = []\<rparr>,
      world = [Raised (Exn ValueError ''boom''), Raised (Exn ValueError ''boom''),
               Raised (Exn ValueError ''boom'')],
      queue_snd = []\<rparr> =
     (Failed ''Response format error: boom'',
      \<lparr>heap = \<lparr>lists = [[], []], dicts = []\<rparr>,
       world = [Raised (Exn ValueError ''boom''), Raised (Exn ValueError ''boom'')],
       queue_snd = []\<rparr>) \<and>
   queue_snd (snd (process_llm_response example_env ''Qwen/Qwen2.5-72B-Instruct'' 1 3
     \<lparr>heap = \<lparr>lists = [[], []], dicts = []\<rparr>,
      world = [Raised (Exn ValueError ''boom''), Raised (Exn ValueError ''boom''),
               Raised (Exn ValueError ''boom'')],
      queue_snd = []\<rparr>)) =
     [\<lparr>msg_type = ERROR,
       payload = PyDict [(PyStr ''error'', PyStr ''Response format error: boom''),
                         (PyStr ''retries'', PyInt 3)]\<rparr>]"
proof -
  let ?mn = "''Qwen/Qwen2.5-72B-Instruct''"
  let ?v = "Raised (Exn ValueError ''boom'')"
  let ?msg = "''Response format error: boom''"
  let ?m0 = "\<lparr>heap = \<lparr>lists = [[], []], dicts = []\<rparr>, world = [?v, ?v, ?v],
              queue_snd = []\<rparr> :: backend_result list machine"
  have a1: "attempt example_env ?mn 1 ?m0 = (Failed ?msg, ?m0\<lparr>world := [?v, ?v]\<rparr>)"
    using scripted_raised [of ?m0 "Exn ValueError ''boom''" "[?v, ?v]" ?mn 1]
    by (simp add: error_msg_of_def is_ValueError_def)
  have a2: "attempt example_env ?mn 1 (feedback 1 ?msg (?m0\<lparr>world := [?v, ?v]\<rparr>)) =
              (Failed ?msg, (feedback 1 ?msg (?m0\<lparr>world := [?v, ?v]\<rparr>))\<lparr>world := [?v]\<rparr>)"
    using scripted_raised [of "feedback 1 ?msg (?m0\<lparr>world := [?v, ?v]\<rparr>)"
        "Exn ValueError ''boom''" "[?v]" ?mn 1]
    by (simp add: error_msg_of_def is_ValueError_def feedback_world)
  let ?m2 = "(feedback 1 ?msg (?m0\<lparr>world := [?v, ?v]\<rparr>))\<lparr>world := [?v]\<rparr>"
  have a3: "attempt example_env ?mn 1 (feedback 1 ?msg ?m2) =
              (Failed ?msg, (feedback 1 ?msg ?m2)\<lparr>world := []\<rparr>)"
    using scripted_raised [of "feedback 1 ?msg ?m2" "Exn ValueError ''boom''" "[]" ?mn 1]
    by (simp add: error_msg_of_def is_ValueError_def feedback_world)
  have q: "queue_snd (snd (process_llm_response example_env ?mn 1 3 ?m0)) =
             [\<lparr>msg_type = ERROR,
               payload = PyDict [(PyStr ''error'', PyStr ?msg), (PyStr ''retries'', PyInt 3)]\<rparr>]"
    unfolding three_attempts_fail [OF a1 a2 a3]
    by (simp add: feedback_queue error_message_def)
  from a1 have a1': "attempt example_env ?mn 1 ?m0 =
      (Failed ?msg, \<lparr>heap = \<lparr>lists = [[], []], dicts = []\<rparr>, world = [?v, ?v], queue_snd = []\<rparr>)"
    by simp
  show ?thesis
    by (intro conjI) (rule a1', rule q)
qed

section \<open>How the turn history grows\<close>

lemma strip_padded_null: "strip padded_null = ''null''"
  by (simp add: strip_def is_space_def padded_null_def)

text \<open>
  Claim C5, as amended. An attempt in which lines 142-146 yield a response text (the
  backend call returns a completion whose first choice has a string as content) appends
  that text, stripped of leading and trailing whitespace, as an assistant turn, whether
  or not it validates; an attempt in which the call raises, or in which reading the
  completion raises, appends nothing. A failed attempt that can be retried is followed by
  exactly one user turn made of the feedback template, the canonical schema and the error
  text. So the history grows by 2 turns per failed, retriable attempt with a response
  text, and by 1 turn when lines 142-146 raised.
\<close>

theorem attempt_grows_turns:
  assumes "valid_list (heap m) d"
  shows "turns_of (heap (snd (attempt env mn d m))) d =
           turns_of (heap m) d @
           (case fst (llm_create env (world m) mn (turns_of (heap m) d)) of
              Content c \<Rightarrow> [\<lparr>role = ''assistant'', content = strip c\<rparr>]
            | Raised e \<Rightarrow> []) \<and>
         (\<forall>e m1. retries + 1 < max_retries \<and> attempt env mn d m = (Failed e, m1) \<longrightarrow>
            retry_loop env mn d max_retries retries m =
              retry_loop env mn d max_retries (retries + 1) (feedback d e m1) \<and>
            turns_of (heap (feedback d e m1)) d =
              turns_of (heap m1) d @
              [\<lparr>role = ''user'',
                content = ERROR_FEEDBACK_1 @ resp_format_json @ ERROR_FEEDBACK_2 @ e @
                          ERROR_FEEDBACK_3\<rparr>] \<and>
            length (turns_of (heap (feedback d e m1)) d) =
              length (turns_of (heap m) d) +
              (case fst (llm_create env (world m) mn (turns_of (heap m) d)) of
                 Content c \<Rightarrow> 2 | Raised e \<Rightarrow> 1))"
proof (intro conjI allI impI)
  show "turns_of (heap (snd (attempt env mn d m))) d =
           turns_of (heap m) d @
           (case fst (llm_create env (world m) mn (turns_of (heap m) d)) of
              Content c \<Rightarrow> [\<lparr>role = ''assistant'', content = strip c\<rparr>]
            | Raised e \<Rightarrow> [])"
    by (rule attempt_turns [OF assms])
next
  fix e m1
  assume a: "retries + 1 < max_retries \<and> attempt env mn d m = (Failed e, m1)"
  then have a': "attempt env mn d m = (Failed e, m1)" and lt: "retries + 1 < max_retries"
    by simp_all
  have v1: "valid_list (heap m1) d"
    using valid_list_appends_to [OF assms attempt_appends_to [of d m env mn]] a' by simp
  show "retry_loop env mn d max_retries retries m =
          retry_loop env mn d max_retries (retries + 1) (feedback d e m1)"
    by (rule retry_loop_retry [OF lt a'])
  show fb: "turns_of (heap (feedback d e m1)) d =
          turns_of (heap m1) d @
          [\<lparr>role = ''user'',
            content = ERROR_FEEDBACK_1 @ resp_format_json @ ERROR_FEEDBACK_2 @ e @
                      ERROR_FEEDBACK_3\<rparr>]"
    using feedback_turns [OF v1, of e] by (simp add: error_feedback_def)
  have "turns_of (heap m1) d =
          turns_of (heap m) d @
          (case fst (llm_create env (world m) mn (turns_of (heap m) d)) of
             Content c \<Rightarrow> [\<lparr>role = ''assistant'', content = strip c\<rparr>]
           | Raised e \<Rightarrow> [])"
    using attempt_turns [OF assms, of env mn] a' by simp
  then show "length (turns_of (heap (feedback d e m1)) d) =
          length (turns_of (heap m) d) +
          (case fst (llm_create env (world m) mn (turns_of (heap m) d)) of
             Content c \<Rightarrow> 2 | Raised e \<Rightarrow> 1)"
    unfolding fb by (simp split: backend_result.splits)
qed

theorem attempt_grows_turns_witness:
  "valid_list \<lparr>lists = [[], []], dicts = []\<rparr> 1 \<and>
   (0::int) + 1 < 3 \<and>
   attempt example_env ''Qwen/Qwen2.5-72B-Instruct'' 1
     \<lparr>heap = \<lparr>lists = [[], []], dicts = []\<rparr>, world = [Content padded_null], queue_snd = []\<rparr> =
     (Failed (''Unknown error: argument of type '' @ quoted ''NoneType'' @ '' is not iterable''),
      \<lparr>heap = append_turn 1 \<lparr>role = ''assistant'', content = ''null''\<rparr>
                \<lparr>lists = [[], []], dicts = []\<rparr>,
       world = [], queue_snd = []\<rparr>) \<and>
   turns_of (heap (snd (attempt example_env ''Qwen/Qwen2.5-72B-Instruct'' 1
     \<lparr>heap = \<lparr>lists = [[], []], dicts = []\<rparr>, world = [Content padded_null],
      queue_snd = []\<rparr>))) 1 =
     [\<lparr>role = ''assistant'', content = ''null''\<rparr>] \<and>
   turns_of (heap (feedback 1
       (''Unknown error: argument of type '' @ quoted ''NoneType'' @ '' is not iterable'')
       \<lparr>heap = append_turn 1 \<lparr>role = ''assistant'', content = ''null''\<rparr>
                 \<lparr>lists = [[], []], dicts = []\<rparr>,
        world = ([] :: backend_result list), queue_snd = []\<rparr>)) 1 =
     [\<lparr>role = ''assistant'', content = ''null''\<rparr>,
      \<lparr>role = ''user'',
       content = ERROR_FEEDBACK_1 @ resp_format_json @ ERROR_FEEDBACK_2 @
                 (''Unknown error: argument of type '' @ quoted ''NoneType'' @ '' is not iterable'') @
                 ERROR_FEEDBACK_3\<rparr>] \<and>
   length (turns_of (heap (feedback 1
       (''Unknown error: argument of type '' @ quoted ''NoneType'' @ '' is not iterable'')
       \<lparr>heap = append_turn 1 \<lparr>role = ''assistant'', content = ''null''\<rparr>
                 \<lparr>lists = [[], []], dicts = []\<rparr>,
        world = ([] :: backend_result list), queue_snd = []\<rparr>)) 1) = 2"
proof -
  let ?mn = "''Qwen/Qwen2.5-72B-Instruct''"
  let ?e = "''Unknown error: argument of type '' @ quoted ''NoneType'' @ '' is not iterable''"
  let ?st = "\<lparr>lists = [[], []], dicts = []\<rparr>"
  let ?m0 = "\<lparr>heap = ?st, world = [Content padded_null], queue_snd = []\<rparr>
             :: backend_result list machine"
  let ?m1 = "\<lparr>heap = append_turn 1 \<lparr>role = ''assistant'', content = ''null''\<rparr> ?st,
              world = [], queue_snd = []\<rparr> :: backend_result list machine"
  have v: "valid_list (heap ?m0) 1"
    by (simp add: valid_list_def list_at_def)
  have c: "llm_create example_env [Content padded_null] ?mn [] = (Content padded_null, [])"
    by (simp add: example_env_def scripted_def)
  have a: "attempt example_env ?mn 1 ?m0 = (Failed ?e, ?m1)"
    using scripted_invalid [of ?m0 padded_null "[]" _ ?mn 1] example_validate_null
    by (simp add: strip_padded_null error_msg_of_def is_ValueError_def)
  have t0: "turns_of \<lparr>lists = [[], []], dicts = []\<rparr> (Suc 0) = []"
    by (simp add: turns_of_def list_at_def)
  note t = attempt_grows_turns [OF v, of example_env ?mn 0 3]
  have t1: "turns_of (heap (snd (attempt example_env ?mn 1 ?m0))) 1 =
              [\<lparr>role = ''assistant'', content = ''null''\<rparr>]"
    using t [THEN conjunct1] by (simp add: c t0 strip_padded_null)
  note t' = t [THEN conjunct2, rule_format, of ?e ?m1]
  have lt: "(0::int) + 1 < 3" by simp
  have t2: "turns_of (heap (feedback 1 ?e ?m1)) 1 =
              turns_of (heap ?m1) 1 @
              [\<lparr>role = ''user'',
                content = ERROR_FEEDBACK_1 @ resp_format_json @ ERROR_FEEDBACK_2 @ ?e @
                          ERROR_FEEDBACK_3\<rparr>]"
    by (rule t' [OF conjI [OF lt a], THEN conjunct2, THEN conjunct1])
  have t3: "length (turns_of (heap (feedback 1 ?e ?m1)) 1) = 2"
    using t' [OF conjI [OF lt a], THEN conjunct2, THEN conjunct2] by (simp add: c t0)
  have m1: "turns_of (heap ?m1) 1 = [\<lparr>role = ''assistant'', content = ''null''\<rparr>]"
    using t1 by (simp only: a snd_conv)
  have v': "valid_list ?st 1" using v by simp
  have a': "attempt example_env ?mn 1 \<lparr>heap = ?st, world = [Content padded_null], queue_snd = []\<rparr>
              = (Failed ?e, ?m1)"
    by (rule a)
  show ?thesis
    apply (intro conjI)
         apply (rule v')
        apply (rule lt)
       apply (rule a')
      apply (rule t1)
     apply (subst t2, subst m1, simp)
    apply (rule t3)
    done
qed

text \<open>
  The claim as stated fails: with a backend that cannot be reached, three attempts are
  made and the history holds two feedback turns and no assistant turn.
\<close>

theorem backend_failure_grows_by_one_counterexample:
  "fst (process_llm_response example_env ''Qwen/Qwen2.5-72B-Instruct'' 1 3
     \<lparr>heap = \<lparr>lists = [[], []], dicts = []\<rparr>, world = [], queue_snd = []\<rparr>) = Returned False \<and>
   turns_of (heap (snd (process_llm_response example_env ''Qwen/Qwen2.5-72B-Instruct'' 1 3
     \<lparr>heap = \<lparr>lists = [[], []], dicts = []\<rparr>, world = [], queue_snd = []\<rparr>))) 1 =
     [\<lparr>role = ''user'', content = error_feedback ''Unknown error: Connection error.''\<rparr>,
      \<lparr>role = ''user'', content = error_feedback ''Unknown error: Connection error.''\<rparr>]"
proof -
  let ?mn = "''Qwen/Qwen2.5-72B-Instruct''"
  let ?e = "''Unknown error: Connection error.''"
  let ?m0 = "\<lparr>heap = \<lparr>lists = [[], []], dicts = []\<rparr>, world = [], queue_snd = []\<rparr>
             :: backend_result list machine"
  have a1: "attempt example_env ?mn 1 ?m0 = (Failed ?e, ?m0)"
    by (rule scripted_exhausted) simp
  have a2: "attempt example_env ?mn 1 (feedback 1 ?e ?m0) = (Failed ?e, feedback 1 ?e ?m0)"
    by (rule scripted_exhausted) (simp add: feedback_world)
  have a3: "attempt example_env ?mn 1 (feedback 1 ?e (feedback 1 ?e ?m0)) =
              (Failed ?e, feedback 1 ?e (feedback 1 ?e ?m0))"
    by (rule scripted_exhausted) (simp add: feedback_world)
  have v0: "valid_list (heap ?m0) 1"
    by (simp add: valid_list_def list_at_def)
  have v1: "valid_list (heap (feedback 1 ?e ?m0)) 1"
    by (rule valid_list_appends_to [OF v0 feedback_appends_to])
  have t0: "turns_of (heap ?m0) 1 = []"
    by (simp add: turns_of_def list_at_def)
  have "turns_of (heap (feedback 1 ?e (feedback 1 ?e ?m0))) 1 =
          [\<lparr>role = ''user'', content = error_feedback ?e\<rparr>,
           \<lparr>role = ''user'', content = error_feedback ?e\<rparr>]"
    by (simp only: feedback_turns [OF v1] feedback_turns [OF v0] t0 append.simps)
  then show ?thesis
    unfolding three_attempts_fail [OF a1 a2 a3] by simp
qed

section \<open>The outcome of validation\<close>

lemma str_in_dict: "x = PyDict d \<Longrightarrow> str_in k x = Inr (has_key k x)"
  by simp

lemma check_suggestions_dicts:
  "\<forall>x \<in> set xs. \<exists>d. x = PyDict d \<Longrightarrow>
     check_suggestions xs =
       (if \<forall>x \<in> set xs. has_key ''expression'' x \<and> has_key ''reason'' x
        then Inr () else Inl missing_fields)"
proof (induction xs)
  case Nil
  show ?case by simp
next
  case (Cons x xs)
  from Cons.prems obtain d where x: "x = PyDict d" by auto
  from Cons.prems have "\<forall>y \<in> set xs. \<exists>d. y = PyDict d" by simp
  from Cons.IH [OF this] show ?case
    by (simp add: x)
qed

lemma check_payload_no_key:
  "map_of kvs (PyStr ''suggestions'') = None \<Longrightarrow>
     check_payload (PyDict kvs) = Inl missing_suggestions"
  by (simp add: check_payload_def map_of_eq_None_iff)

lemma check_payload_list:
  assumes "map_of kvs (PyStr ''suggestions'') = Some (PyList xs)"
  shows "check_payload (PyDict kvs) = check_suggestions xs"
proof -
  from assms have "(PyStr ''suggestions'', PyList xs) \<in> set kvs"
    by (rule map_of_SomeD)
  then have "PyStr ''suggestions'' \<in> fst ` set kvs"
    by force
  then show ?thesis
    using assms by (simp add: check_payload_def)
qed

lemma check_payload_scalar:
  "is_scalar p \<Longrightarrow>
     check_payload p =
       Inl (Exn TypeError (''argument of type '' @ quoted (type_name p) @ '' is not iterable''))"
  by (cases p) (simp_all add: check_payload_def)

text \<open>
  Claim C4, as amended. The validator first runs the strict JSON parse, and its payload is
  the result whenever it succeeds. Only when the strict parse raises \<open>JSONDecodeError\<close>
  is the Python-literal parse run; its payload is then the result, and its
  \<open>ValueError\<close> or \<open>SyntaxError\<close> becomes the parse error that carries its message,
  while any other exception of it is passed on as it is. When the strict parse raises an
  exception of another class, that exception is the result and the Python-literal parse
  is not run. A failed parse is the failure of the validator. For a payload that is a
  dict: without a \<open>suggestions\<close> key the validator fails with the schema error for the
  missing key; when \<open>suggestions\<close> is a list of dicts it succeeds with the parsed
  payload if every element has both \<open>expression\<close> and \<open>reason\<close>, and fails with the
  schema error for the missing fields otherwise. For a payload that is \<open>None\<close>, a bool
  or a number the validator fails with a \<open>TypeError\<close>, which the handlers report as an
  unknown error.
\<close>

theorem validate_response_outcome:
  "(\<forall>p. json_loads env t = Inr p \<longrightarrow> parse_payload env t = Inr p) \<and>
   (\<forall>e. json_loads env t = Inl e \<and> cls e = JSONDecodeError \<longrightarrow>
      parse_payload env t =
        (case literal_eval env t of
           Inr p \<Rightarrow> Inr p
         | Inl e2 \<Rightarrow>
             if is_ValueError (cls e2) \<or> cls e2 = SyntaxError
             then Inl (Exn ValueError (''Cannot parse response format: '' @ msg e2))
             else Inl e2)) \<and>
   (\<forall>kvs. parse_payload env t = Inr (PyDict kvs) \<and>
          map_of kvs (PyStr ''suggestions'') = None \<longrightarrow>
      validate_response env t = Inl missing_suggestions) \<and>
   (\<forall>kvs xs. parse_payload env t = Inr (PyDict kvs) \<and>
             map_of kvs (PyStr ''suggestions'') = Some (PyList xs) \<and>
             (\<forall>x \<in> set xs. \<exists>d. x = PyDict d) \<longrightarrow>
      validate_response env t =
        (if \<forall>x \<in> set xs. has_key ''expression'' x \<and> has_key ''reason'' x
         then Inr (PyDict kvs) else Inl missing_fields)) \<and>
   (\<forall>e. json_loads env t = Inl e \<and> cls e \<noteq> JSONDecodeError \<longrightarrow>
      parse_payload env t = Inl e) \<and>
   (\<forall>e. parse_payload env t = Inl e \<longrightarrow> validate_response env t = Inl e) \<and>
   (\<forall>p. parse_payload env t = Inr p \<and> is_scalar p \<longrightarrow>
      validate_response env t =
        Inl (Exn TypeError (''argument of type '' @ quoted (type_name p) @ '' is not iterable'')) \<and>
      error_msg_of
        (Exn TypeError (''argument of type '' @ quoted (type_name p) @ '' is not iterable'')) =
        ''Unknown error: '' @ ''argument of type '' @ quoted (type_name p) @ '' is not iterable'')"
proof (intro conjI allI impI)
  fix p assume "json_loads env t = Inr p"
  then show "parse_payload env t = Inr p"
    by (simp add: parse_payload_def)
next
  fix e assume "json_loads env t = Inl e \<and> cls e = JSONDecodeError"
  then show "parse_payload env t =
        (case literal_eval env t of
           Inr p \<Rightarrow> Inr p
         | Inl e2 \<Rightarrow>
             if is_ValueError (cls e2) \<or> cls e2 = SyntaxError
             then Inl (Exn ValueError (''Cannot parse response format: '' @ msg e2))
             else Inl e2)"
    by (simp add: parse_payload_def)
next
  fix kvs
  assume "parse_payload env t = Inr (PyDict kvs) \<and> map_of kvs (PyStr ''suggestions'') = None"
  then show "validate_response env t = Inl missing_suggestions"
    by (simp add: validate_response_def check_payload_no_key)
next
  fix kvs xs
  assume a: "parse_payload env t = Inr (PyDict kvs) \<and>
             map_of kvs (PyStr ''suggestions'') = Some (PyList xs) \<and>
             (\<forall>x \<in> set xs. \<exists>d. x = PyDict d)"
  then have c: "check_payload (PyDict kvs) =
      (if \<forall>x \<in> set xs. has_key ''expression'' x \<and> has_key ''reason'' x
       then Inr () else Inl missing_fields)"
    using check_payload_list [of kvs xs] check_suggestions_dicts [of xs] by simp
  show "validate_response env t =
        (if \<forall>x \<in> set xs. has_key ''expression'' x \<and> has_key ''reason'' x
         then Inr (PyDict kvs) else Inl missing_fields)"
    using a by (simp add: validate_response_def c)
next
  fix e assume "json_loads env t = Inl e \<and> cls e \<noteq> JSONDecodeError"
  then show "parse_payload env t = Inl e"
    by (simp add: parse_payload_def)
next
  fix e assume "parse_payload env t = Inl e"
  then show "validate_response env t = Inl e"
    by (simp add: validate_response_def)
next
  fix p assume a: "parse_payload env t = Inr p \<and> is_scalar p"
  then show "validate_response env t =
        Inl (Exn TypeError (''argument of type '' @ quoted (type_name p) @ '' is not iterable''))"
    by (simp add: validate_response_def check_payload_scalar)
next
  fix p
  show "error_msg_of
        (Exn TypeError (''argument of type '' @ quoted (type_name p) @ '' is not iterable'')) =
        ''Unknown error: '' @ ''argument of type '' @ quoted (type_name p) @ '' is not iterable''"
    by (simp add: error_msg_of_def is_ValueError_def)
qed

theorem validate_response_outcome_witness:
  "json_loads example_env good_response = Inr good_payload \<and>
   parse_payload example_env good_response = Inr good_payload \<and>
   validate_response example_env good_response = Inr good_payload \<and>
   json_loads example_env single_quoted_response =
     Inl (Exn JSONDecodeError
            ''Expecting property name enclosed in double quotes: line 1 column 2 (char 1)'') \<and>
   parse_payload example_env single_quoted_response =
     Inr (PyDict [(PyStr ''suggestions'', PyList [])]) \<and>
   json_loads example_env ''I cannot help'' =
     Inl (Exn JSONDecodeError ''Expecting value: line 1 column 1 (char 0)'') \<and>
   parse_payload example_env ''I cannot help'' =
     Inl (Exn ValueError ''Cannot parse response format: invalid syntax (<unknown>, line 1)'') \<and>
   parse_payload example_env no_suggestions_response =
     Inr (PyDict [(PyStr ''reason'', PyStr ''ok'')]) \<and>
   validate_response example_env no_suggestions_response = Inl missing_suggestions \<and>
   parse_payload example_env no_reason_response = Inr no_reason_payload \<and>
   validate_response example_env no_reason_response = Inl missing_fields \<and>
   json_loads recursion_env good_response =
     Inl (Exn OtherException
            ''maximum recursion depth exceeded while decoding a JSON array from a unicode string'') \<and>
   cls (Exn OtherException
          ''maximum recursion depth exceeded while decoding a JSON array from a unicode string'') \<noteq>
     JSONDecodeError \<and>
   literal_eval recursion_env good_response = Inr (PyDict [(PyStr ''suggestions'', PyList [])]) \<and>
   parse_payload recursion_env good_response =
     Inl (Exn OtherException
            ''maximum recursion depth exceeded while decoding a JSON array from a unicode string'') \<and>
   validate_response recursion_env good_response =
     Inl (Exn OtherException
            ''maximum recursion depth exceeded while decoding a JSON array from a unicode string'') \<and>
   validate_response example_env ''I cannot help'' =
     Inl (Exn ValueError ''Cannot parse response format: invalid syntax (<unknown>, line 1)'') \<and>
   parse_payload example_env ''null'' = Inr PyNone \<and>
   is_scalar PyNone \<and>
   validate_response example_env ''null'' =
     Inl (Exn TypeError (''argument of type '' @ quoted (type_name PyNone) @ '' is not iterable''))"
proof -
  let ?jde = "Exn JSONDecodeError ''Expecting value: line 1 column 1 (char 0)''"
  note good = validate_response_outcome [of example_env good_response]
  note sq = validate_response_outcome [of example_env single_quoted_response]
  note refusal = validate_response_outcome [of example_env "''I cannot help''"]
  note nosug = validate_response_outcome [of example_env no_suggestions_response]
  note noreason = validate_response_outcome [of example_env no_reason_response]
  have j1: "json_loads example_env good_response = Inr good_payload"
    by (simp add: example_env_def example_json_loads_def)
  have p1: "parse_payload example_env good_response = Inr good_payload"
    using good [THEN conjunct1, rule_format, OF j1] .
  have v1: "validate_response example_env good_response = Inr good_payload"
    using good [THEN conjunct2, THEN conjunct2, THEN conjunct2, THEN conjunct1, rule_format,
        of "[(PyStr ''suggestions'',
              PyList [PyDict [(PyStr ''expression'', PyStr ''gt(x0,x1)''),
                              (PyStr ''reason'', PyStr ''simpler'')]]),
             (PyStr ''anomaly_score'', PyFloat 0x3FC999999999999A),
             (PyStr ''reason'', PyStr ''ok'')]"
           "[PyDict [(PyStr ''expression'', PyStr ''gt(x0,x1)''),
                     (PyStr ''reason'', PyStr ''simpler'')]]"] p1
    by (simp add: good_payload_def)
  let ?jde2 = "Exn JSONDecodeError
            ''Expecting property name enclosed in double quotes: line 1 column 2 (char 1)''"
  have j2: "json_loads example_env single_quoted_response = Inl ?jde2"
    by (simp add: example_env_def example_json_loads_def single_quoted_response_def
        good_response_def no_reason_response_def no_suggestions_response_def)
  have p2: "parse_payload example_env single_quoted_response =
              Inr (PyDict [(PyStr ''suggestions'', PyList [])])"
    using sq [THEN conjunct2, THEN conjunct1, rule_format, of ?jde2] j2
    by (simp add: example_env_def example_literal_eval_def)
  have j3: "json_loads example_env ''I cannot help'' = Inl ?jde"
    by (simp add: example_env_def example_json_loads_def single_quoted_response_def
        good_response_def no_reason_response_def no_suggestions_response_def)
  have p3: "parse_payload example_env ''I cannot help'' =
              Inl (Exn ValueError ''Cannot parse response format: invalid syntax (<unknown>, line 1)'')"
    using refusal [THEN conjunct2, THEN conjunct1, rule_format, of ?jde] j3
    by (simp add: example_env_def example_literal_eval_def single_quoted_response_def)
  have j4: "json_loads example_env no_suggestions_response =
              Inr (PyDict [(PyStr ''reason'', PyStr ''ok'')])"
    by (simp add: example_env_def example_json_loads_def
        good_response_def no_reason_response_def no_suggestions_response_def)
  have p4: "parse_payload example_env no_suggestions_response =
              Inr (PyDict [(PyStr ''reason'', PyStr ''ok'')])"
    using nosug [THEN conjunct1, rule_format, OF j4] .
  have v4: "validate_response example_env no_suggestions_response = Inl missing_suggestions"
    using nosug [THEN conjunct2, THEN conjunct2, THEN conjunct1, rule_format,
        of "[(PyStr ''reason'', PyStr ''ok'')]"] p4
    by simp
  have j5: "json_loads example_env no_reason_response = Inr no_reason_payload"
    by (simp add: example_env_def example_json_loads_def
        good_response_def no_reason_response_def)
  have p5: "parse_payload example_env no_reason_response = Inr no_reason_payload"
    using noreason [THEN conjunct1, rule_format, OF j5] .
  have v5: "validate_response example_env no_reason_response = Inl missing_fields"
    using noreason [THEN conjunct2, THEN conjunct2, THEN conjunct2, THEN conjunct1, rule_format,
        of "[(PyStr ''suggestions'', PyList [PyDict [(PyStr ''expression'', PyStr ''gt(x0,x1)'')]])]"
           "[PyDict [(PyStr ''expression'', PyStr ''gt(x0,x1)'')]]"] p5
    by (simp add: no_reason_payload_def)
  let ?rec = "Exn OtherException
            ''maximum recursion depth exceeded while decoding a JSON array from a unicode string''"
  note deep = validate_response_outcome [of recursion_env good_response]
  note null = validate_response_outcome [of example_env "''null''"]
  have j6: "json_loads recursion_env good_response = Inl ?rec"
    by (simp add: recursion_env_def)
  have k6: "cls ?rec \<noteq> JSONDecodeError" by simp
  have l6: "literal_eval recursion_env good_response =
              Inr (PyDict [(PyStr ''suggestions'', PyList [])])"
    by (simp add: recursion_env_def)
  have p6: "parse_payload recursion_env good_response = Inl ?rec"
    by (rule deep [THEN conjunct2, THEN conjunct2, THEN conjunct2, THEN conjunct2,
          THEN conjunct1, rule_format, OF conjI [OF j6 k6]])
  have v6: "validate_response recursion_env good_response = Inl ?rec"
    by (rule deep [THEN conjunct2, THEN conjunct2, THEN conjunct2, THEN conjunct2,
          THEN conjunct2, THEN conjunct1, rule_format, OF p6])
  have v3: "validate_response example_env ''I cannot help'' =
              Inl (Exn ValueError ''Cannot parse response format: invalid syntax (<unknown>, line 1)'')"
    by (rule refusal [THEN conjunct2, THEN conjunct2, THEN conjunct2, THEN conjunct2,
          THEN conjunct2, THEN conjunct1, rule_format, OF p3])
  have j7: "json_loads example_env ''null'' = Inr PyNone"
    by (simp add: example_env_def example_json_loads_def
        good_response_def no_reason_response_def no_suggestions_response_def)
  have p7: "parse_payload example_env ''null'' = Inr PyNone"
    using null [THEN conjunct1, rule_format, OF j7] .
  have s7: "is_scalar PyNone" by simp
  have v7: "validate_response example_env ''null'' =
      Inl (Exn TypeError (''argument of type '' @ quoted (type_name PyNone) @ '' is not iterable''))"
    by (rule null [THEN conjunct2, THEN conjunct2, THEN conjunct2, THEN conjunct2,
          THEN conjunct2, THEN conjunct2, rule_format, OF conjI [OF p7 s7], THEN conjunct1])
  show ?thesis
    by (intro conjI) (rule j1, rule p1, rule v1, rule j2, rule p2, rule j3, rule p3,
        rule p4, rule v4, rule p5, rule v5, rule j6, rule k6, rule l6, rule p6, rule v6,
        rule v3, rule p7, rule s7, rule v7)
qed

text \<open>
  The claim as stated fails on a payload that is not a dict: the text \<open>null\<close> parses to
  \<open>None\<close>, the membership test of line 164 raises a \<open>TypeError\<close>, and the attempt
  fails with an unknown error, not with a schema error.
\<close>

theorem non_dict_payload_counterexample:
  "parse_payload example_env ''null'' = Inr PyNone \<and>
   validate_response example_env ''null'' =
     Inl (Exn TypeError (''argument of type '' @ quoted ''NoneType'' @ '' is not iterable'')) \<and>
   validate_response example_env ''null'' \<noteq> Inl missing_suggestions \<and>
   validate_response example_env ''null'' \<noteq> Inl missing_fields \<and>
   error_msg_of (Exn TypeError (''argument of type '' @ quoted ''NoneType'' @ '' is not iterable'')) =
     ''Unknown error: argument of type '' @ quoted ''NoneType'' @ '' is not iterable''"
  by (simp add: validate_response_def parse_payload_def example_env_def example_json_loads_def
      check_payload_def good_response_def no_reason_response_def no_suggestions_response_def
      missing_suggestions_def missing_fields_def error_msg_of_def is_ValueError_def)

section \<open>The first-round prompt for no individuals\<close>

text \<open>
  Claim C8. For an \<open>EVOLUTION_UPDATE\<close> whose list of individuals is empty and that has
  no previous suggestions, \<open>format_top_individuals\<close> returns the empty string without
  an exception, the round prompt is the first-round template around that empty listing
  followed by the schema suffix, and the dispatcher handles the message without a crash.
\<close>

theorem empty_individuals_prompt:
  assumes "payload_get p ''top_individuals'' (PyList []) = Inr (PyList [])"
      and "payload_get p ''previous_suggestions'' PyNone = Inr PyNone"
  shows "format_top_individuals env (PyList []) = Inr [] \<and>
         round_prompt env p = Inr (FIRST_ROUND_1 @ [] @ FIRST_ROUND_2 @ prompt_suffix) \<and>
         (\<exists>s'. handle_message env mn \<lparr>msg_type = EVOLUTION_UPDATE, payload = p\<rparr> s = Continue s')"
proof -
  have f: "format_top_individuals env (PyList []) = Inr []"
    by (simp add: format_top_individuals_def)
  have r: "round_prompt env p = Inr (FIRST_ROUND_1 @ [] @ FIRST_ROUND_2 @ prompt_suffix)"
    using assms by (simp add: round_prompt_def f)
  have "\<exists>s'. handle_message env mn \<lparr>msg_type = EVOLUTION_UPDATE, payload = p\<rparr> s = Continue s'"
    by (simp add: handle_message_def handle_evolution_update_def r Let_def split: prod.split)
  with f r show ?thesis by simp
qed

theorem empty_individuals_prompt_witness:
  "payload_get (payload empty_update) ''top_individuals'' (PyList []) = Inr (PyList []) \<and>
   payload_get (payload empty_update) ''previous_suggestions'' PyNone = Inr PyNone \<and>
   format_top_individuals example_env (PyList []) = Inr [] \<and>
   round_prompt example_env (payload empty_update) =
     Inr (FIRST_ROUND_1 @ [] @ FIRST_ROUND_2 @ prompt_suffix) \<and>
   (\<exists>s'. handle_message example_env ''Qwen/Qwen2.5-72B-Instruct''
           \<lparr>msg_type = EVOLUTION_UPDATE, payload = payload empty_update\<rparr>
           (initial_worker [Content good_response] []) = Continue s')"
proof -
  have 1: "payload_get (payload empty_update) ''top_individuals'' (PyList []) = Inr (PyList [])"
    by (simp add: empty_update_def payload_get_def)
  have 2: "payload_get (payload empty_update) ''previous_suggestions'' PyNone = Inr PyNone"
    by (simp add: empty_update_def payload_get_def)
  from empty_individuals_prompt [OF 1 2, of example_env "''Qwen/Qwen2.5-72B-Instruct''"
      "initial_worker [Content good_response] []"] 1 2
  show ?thesis by (intro conjI) blast+
qed

section \<open>Copies and new lists in the store\<close>

lemma valid_listD:
  "valid_list st l \<Longrightarrow> l < length (lists st)"
  "valid_list st l \<Longrightarrow> d \<in> set (list_at st l) \<Longrightarrow> d < length (dicts st)"
  by (auto simp: valid_list_def list_all_iff)

lemma copy_elems_store:
  "copy_elems ds memo st = (r, st') \<Longrightarrow>
     lists st' = lists st \<and> prefix (dicts st) (dicts st') \<and> length r = length ds"
proof (induction ds arbitrary: memo st r st')
  case Nil
  then show ?case by simp
next
  case (Cons d ds)
  show ?case
  proof (cases "map_of memo d")
    case (Some d')
    obtain r0 st0 where c: "copy_elems ds memo st = (r0, st0)"
      by (cases "copy_elems ds memo st")
    from Cons.prems Some c have "r = d' # r0" "st' = st0" by simp_all
    with Cons.IH [OF c] show ?thesis by simp
  next
    case None
    let ?st1 = "st\<lparr>dicts := dicts st @ [dict_at st d]\<rparr>"
    let ?d' = "length (dicts st)"
    obtain r0 st0 where c: "copy_elems ds ((d, ?d') # memo) ?st1 = (r0, st0)"
      by (cases "copy_elems ds ((d, ?d') # memo) ?st1")
    from Cons.prems None c have "r = ?d' # r0" "st' = st0"
      by (simp_all add: new_dict_def)
    then show ?thesis
      using Cons.IH [OF c] by (auto dest: append_prefixD)
  qed
qed

lemma copy_elems_fresh:
  assumes "copy_elems ds memo st = (r, st')"
      and "n \<le> length (dicts st)"
      and "\<forall>(a, b) \<in> set memo. n \<le> b \<and> b < length (dicts st)"
  shows "\<forall>x \<in> set r. n \<le> x \<and> x < length (dicts st')"
  using assms
proof (induction ds arbitrary: memo st r st')
  case Nil
  then show ?case by simp
next
  case (Cons d ds)
  show ?case
  proof (cases "map_of memo d")
    case (Some d')
    obtain r0 st0 where c: "copy_elems ds memo st = (r0, st0)"
      by (cases "copy_elems ds memo st")
    from Cons.prems(1) Some c have r: "r = d' # r0" "st' = st0" by simp_all
    from Some have "(d, d') \<in> set memo" by (rule map_of_SomeD)
    with Cons.prems(3) have d': "n \<le> d'" "d' < length (dicts st)" by auto
    have "length (dicts st) \<le> length (dicts st0)"
      using copy_elems_store [OF c] by (auto dest: prefix_length_le)
    with d' Cons.IH [OF c Cons.prems(2) Cons.prems(3)] r show ?thesis by simp
  next
    case None
    let ?st1 = "st\<lparr>dicts := dicts st @ [dict_at st d]\<rparr>"
    let ?d' = "length (dicts st)"
    obtain r0 st0 where c: "copy_elems ds ((d, ?d') # memo) ?st1 = (r0, st0)"
      by (cases "copy_elems ds ((d, ?d') # memo) ?st1")
    from Cons.prems(1) None c have r: "r = ?d' # r0" "st' = st0"
      by (simp_all add: new_dict_def)
    have n1: "n \<le> length (dicts ?st1)" using Cons.prems(2) by simp
    have m1: "\<forall>(a, b) \<in> set ((d, ?d') # memo). n \<le> b \<and> b < length (dicts ?st1)"
      using Cons.prems(2) Cons.prems(3) by auto
    have "length (dicts ?st1) \<le> length (dicts st0)"
      using copy_elems_store [OF c] by (auto dest: prefix_length_le)
    then have "?d' < length (dicts st0)" by simp
    with Cons.IH [OF c n1 m1] r Cons.prems(2) show ?thesis by simp
  qed
qed

lemma copy_elems_values:
  assumes "copy_elems ds memo st = (r, st')"
      and "\<forall>d \<in> set ds. d < length (dicts st)"
      and "\<forall>(a, b) \<in> set memo. a < length (dicts st) \<and> b < length (dicts st) \<and>
                                dict_at st b = dict_at st a"
  shows "map (dict_at st') r = map (dict_at st) ds"
  using assms
proof (induction ds arbitrary: memo st r st')
  case Nil
  then show ?case by simp
next
  case (Cons d ds)
  from Cons.prems(2) have dv: "d < length (dicts st)"
    and dsv: "\<forall>x \<in> set ds. x < length (dicts st)" by simp_all
  show ?case
  proof (cases "map_of memo d")
    case (Some d')
    obtain r0 st0 where c: "copy_elems ds memo st = (r0, st0)"
      by (cases "copy_elems ds memo st")
    from Cons.prems(1) Some c have r: "r = d' # r0" "st' = st0" by simp_all
    from Some have "(d, d') \<in> set memo" by (rule map_of_SomeD)
    with Cons.prems(3) have d': "d' < length (dicts st)" "dict_at st d' = dict_at st d" by auto
    have p: "prefix (dicts st) (dicts st0)"
      using copy_elems_store [OF c] by simp
    have "dict_at st0 d' = dict_at st d"
      using dict_at_prefix [OF d'(1) p] d'(2) by simp
    with Cons.IH [OF c dsv Cons.prems(3)] r show ?thesis by simp
  next
    case None
    let ?st1 = "st\<lparr>dicts := dicts st @ [dict_at st d]\<rparr>"
    let ?d' = "length (dicts st)"
    obtain r0 st0 where c: "copy_elems ds ((d, ?d') # memo) ?st1 = (r0, st0)"
      by (cases "copy_elems ds ((d, ?d') # memo) ?st1")
    from Cons.prems(1) None c have r: "r = ?d' # r0" "st' = st0"
      by (simp_all add: new_dict_def)
    have p1: "prefix (dicts st) (dicts ?st1)" by simp
    have old: "\<And>x. x < length (dicts st) \<Longrightarrow> dict_at ?st1 x = dict_at st x"
      by (rule dict_at_prefix [OF _ p1])
    have new: "dict_at ?st1 ?d' = dict_at st d"
      by (simp add: dict_at_def)
    have dsv1: "\<forall>x \<in> set ds. x < length (dicts ?st1)"
      using dsv by auto
    have m1: "\<forall>(a, b) \<in> set ((d, ?d') # memo).
                a < length (dicts ?st1) \<and> b < length (dicts ?st1) \<and>
                dict_at ?st1 b = dict_at ?st1 a"
    proof -
      have "dict_at ?st1 ?d' = dict_at ?st1 d" using new old [OF dv] by simp
      moreover have "\<forall>(a, b) \<in> set memo.
                a < length (dicts ?st1) \<and> b < length (dicts ?st1) \<and>
                dict_at ?st1 b = dict_at ?st1 a"
        using Cons.prems(3) old by fastforce
      ultimately show ?thesis using dv by simp
    qed
    have p0: "prefix (dicts ?st1) (dicts st0)"
      using copy_elems_store [OF c] by simp
    have "dict_at st0 ?d' = dict_at st d"
      using dict_at_prefix [OF _ p0, of ?d'] new by simp
    moreover have "map (dict_at ?st1) ds = map (dict_at st) ds"
      using dsv old by simp
    ultimately show ?thesis
      using Cons.IH [OF c dsv1 m1] r by simp
  qed
qed

lemma valid_list_extend:
  assumes "valid_list st k"
      and "list_at st' k = list_at st k"
      and "length (lists st) \<le> length (lists st')"
      and "prefix (dicts st) (dicts st')"
  shows "valid_list st' k" and "turns_of st' k = turns_of st k"
proof -
  have len: "length (dicts st) \<le> length (dicts st')"
    using assms(4) by (rule prefix_length_le)
  show "valid_list st' k"
    using assms(1-3) len by (fastforce simp: valid_list_def list_all_iff)
  have "\<forall>d \<in> set (list_at st k). dict_at st' d = dict_at st d"
    using valid_listD(2) [OF assms(1)] dict_at_prefix [OF _ assms(4)] by blast
  then show "turns_of st' k = turns_of st k"
    by (simp add: turns_of_def assms(2))
qed

lemma deepcopy_props:
  assumes "valid_list st l" and "deepcopy l st = (l', st')"
  shows "l' = length (lists st)"
    and "length (lists st') = Suc (length (lists st))"
    and "prefix (dicts st) (dicts st')"
    and "\<forall>k < length (lists st). list_at st' k = list_at st k"
    and "\<forall>x \<in> set (list_at st' l'). length (dicts st) \<le> x \<and> x < length (dicts st')"
    and "turns_of st' l' = turns_of st l"
proof -
  let ?st1 = "st\<lparr>lists := lists st @ [[]]\<rparr>"
  obtain ds st2 where c: "copy_elems (list_at st l) [] ?st1 = (ds, st2)"
    by (cases "copy_elems (list_at st l) [] ?st1")
  from assms(2) c have l': "l' = length (lists st)"
    and st': "st' = st2\<lparr>lists := (lists st2)[length (lists st) := ds]\<rparr>"
    by (auto simp: deepcopy_def new_list_def)
  from copy_elems_store [OF c] have
    ls: "lists st2 = lists st @ [[]]" and p: "prefix (dicts st) (dicts st2)"
    by simp_all
  show "l' = length (lists st)" by (rule l')
  show "length (lists st') = Suc (length (lists st))"
    by (simp add: st' ls)
  show "prefix (dicts st) (dicts st')"
    using p by (simp add: st')
  show "\<forall>k < length (lists st). list_at st' k = list_at st k"
    by (simp add: st' ls list_at_def nth_append)
  have la: "list_at st' l' = ds"
    by (simp add: st' ls l' list_at_def)
  have "\<forall>x \<in> set ds. length (dicts st) \<le> x \<and> x < length (dicts st2)"
    using copy_elems_fresh [OF c, of "length (dicts st)"] by simp
  moreover have "dicts st' = dicts st2" by (simp add: st')
  ultimately show "\<forall>x \<in> set (list_at st' l'). length (dicts st) \<le> x \<and> x < length (dicts st')"
    unfolding la by simp
  have "\<forall>d \<in> set (list_at st l). d < length (dicts ?st1)"
    using valid_listD(2) [OF assms(1)] by simp
  from copy_elems_values [OF c this]
  have "map (dict_at st2) ds = map (dict_at ?st1) (list_at st l)" by simp
  moreover have "dict_at st' = dict_at st2" "dict_at ?st1 = dict_at st"
    by (rule ext, simp add: dict_at_def st')+
  ultimately show "turns_of st' l' = turns_of st l"
    unfolding turns_of_def la by simp
qed

lemma deepcopy_valid_new:
  assumes "valid_list st l" and "deepcopy l st = (l', st')"
  shows "valid_list st' l'"
  using deepcopy_props(1,2,5) [OF assms]
  by (auto simp: valid_list_def list_all_iff)

lemma deepcopy_old:
  assumes "valid_list st l" and "deepcopy l st = (l', st')" and "valid_list st k"
  shows "valid_list st' k" and "turns_of st' k = turns_of st k"
    and "list_at st' k = list_at st k" and "k \<noteq> l'"
proof -
  note d = deepcopy_props [OF assms(1,2)]
  have k: "k < length (lists st)" by (rule valid_listD(1) [OF assms(3)])
  show e: "list_at st' k = list_at st k" using d(4) k by simp
  show "k \<noteq> l'" using d(1) k by simp
  have "length (lists st) \<le> length (lists st')" using d(2) by simp
  from valid_list_extend [OF assms(3) e this d(3)]
  show "valid_list st' k" and "turns_of st' k = turns_of st k" .
qed

lemma new_list_props:
  assumes "new_list st = (l, st1)"
  shows "l = length (lists st)" and "valid_list st1 l" and "list_at st1 l = []"
    and "dicts st1 = dicts st" and "length (lists st1) = Suc (length (lists st))"
    and "\<forall>k < length (lists st). list_at st1 k = list_at st k"
  using assms by (auto simp: new_list_def valid_list_def list_at_def nth_append)

lemma new_list_old:
  assumes "new_list st = (l, st1)" and "valid_list st k"
  shows "valid_list st1 k" and "turns_of st1 k = turns_of st k"
    and "list_at st1 k = list_at st k" and "k \<noteq> l"
proof -
  note n = new_list_props [OF assms(1)]
  have k: "k < length (lists st)" by (rule valid_listD(1) [OF assms(2)])
  show e: "list_at st1 k = list_at st k" using n(6) k by simp
  show "k \<noteq> l" using n(1) k by simp
  have "length (lists st) \<le> length (lists st1)" using n(5) by simp
  moreover have "prefix (dicts st) (dicts st1)" using n(4) by simp
  ultimately show "valid_list st1 k" and "turns_of st1 k = turns_of st k"
    using valid_list_extend [OF assms(2) e] by blast+
qed

section \<open>The handlers of the dispatcher\<close>

lemma handle_init_props:
  assumes wf: "wf_worker s" and h: "handle_init env p s = Continue s'"
  shows "wf_worker s'"
    and "dialogs s' = dialogs s"
    and "init_dialogs s' = length (lists (heap (mach s)))"
    and "list_at (heap (mach s')) (dialogs s) = list_at (heap (mach s)) (dialogs s)"
    and "turns_of (heap (mach s')) (dialogs s) = turns_of (heap (mach s)) (dialogs s)"
    and "\<exists>labels operators.
           payload_get p ''labels'' (PyList []) = Inr labels \<and>
           payload_get p ''operators'' (PyList []) = Inr operators \<and>
           turns_of (heap (mach s')) (init_dialogs s') =
             [\<lparr>role = ''system'',
               content = create_system_prompt env labels operators resp_format_json\<rparr>]"
    and "queue_snd (mach s') = queue_snd (mach s)"
    and "world (mach s') = world (mach s)"
    and "out_f s' = out_f s"
proof -
  let ?h = "heap (mach s)"
  from h obtain labels operators where
    pl: "payload_get p ''labels'' (PyList []) = Inr labels" and
    po: "payload_get p ''operators'' (PyList []) = Inr operators"
    by (auto simp: handle_init_def split: sum.splits)
  obtain l h1 where n: "new_list ?h = (l, h1)" by (cases "new_list ?h")
  let ?t = "\<lparr>role = ''system'', content = create_system_prompt env labels operators resp_format_json\<rparr>"
  let ?h2 = "append_turn l ?t h1"
  from h pl po n have s': "s' = s\<lparr>mach := (mach s)\<lparr>heap := ?h2\<rparr>, init_dialogs := l\<rparr>"
    by (simp add: handle_init_def Let_def)
  from wf have vd: "valid_list ?h (dialogs s)" and vi: "valid_list ?h (init_dialogs s)"
    by (simp_all add: wf_worker_def)
  note np = new_list_props [OF n]
  note nd = new_list_old [OF n vd]
  have ap: "appends_to l h1 ?h2" by (rule appends_to_append_turn)
  have vl: "valid_list ?h2 l" by (rule valid_list_appends_to [OF np(2) ap])
  have vd2: "valid_list ?h2 (dialogs s)" by (rule valid_list_appends_to [OF nd(1) ap])
  show "wf_worker s'"
    using vl vd2 nd(4) by (simp add: wf_worker_def s')
  show "dialogs s' = dialogs s" by (simp add: s')
  show "init_dialogs s' = length (lists (heap (mach s)))" by (simp add: s' np(1))
  have "list_at ?h2 (dialogs s) = list_at h1 (dialogs s)"
    using ap nd(4) by (simp add: appends_to_def)
  then show "list_at (heap (mach s')) (dialogs s) = list_at (heap (mach s)) (dialogs s)"
    by (simp add: s' nd(3))
  have "turns_of ?h2 (dialogs s) = turns_of h1 (dialogs s)"
    by (rule turns_of_appends_to_other [OF nd(1) nd(4) ap])
  then show "turns_of (heap (mach s')) (dialogs s) = turns_of (heap (mach s)) (dialogs s)"
    by (simp add: s' nd(2))
  have "turns_of ?h2 l = [?t]"
    using turns_of_append_turn [OF np(2), of ?t] np(3) by (simp add: turns_of_def)
  then show "\<exists>labels operators.
           payload_get p ''labels'' (PyList []) = Inr labels \<and>
           payload_get p ''operators'' (PyList []) = Inr operators \<and>
           turns_of (heap (mach s')) (init_dialogs s') =
             [\<lparr>role = ''system'',
               content = create_system_prompt env labels operators resp_format_json\<rparr>]"
    using pl po by (simp add: s')
  show "queue_snd (mach s') = queue_snd (mach s)" by (simp add: s')
  show "world (mach s') = world (mach s)" by (simp add: s')
  show "out_f s' = out_f s" by (simp add: s')
qed

lemma handle_threshold_start_props:
  assumes wf: "wf_worker s" and h: "handle_threshold_start env p s = Continue s'"
  shows "wf_worker s'"
    and "init_dialogs s' = init_dialogs s"
    and "dialogs s' = length (lists (heap (mach s)))"
    and "turns_of (heap (mach s')) (dialogs s') = turns_of (heap (mach s)) (init_dialogs s)"
    and "turns_of (heap (mach s')) (init_dialogs s) = turns_of (heap (mach s)) (init_dialogs s)"
    and "list_at (heap (mach s')) (init_dialogs s) = list_at (heap (mach s)) (init_dialogs s)"
    and "\<forall>x \<in> set (list_at (heap (mach s')) (dialogs s')).
           length (dicts (heap (mach s))) \<le> x \<and> x < length (dicts (heap (mach s')))"
    and "queue_snd (mach s') = queue_snd (mach s)"
    and "world (mach s') = world (mach s)"
proof -
  let ?h = "heap (mach s)"
  obtain l h1 where d: "deepcopy (init_dialogs s) ?h = (l, h1)"
    by (cases "deepcopy (init_dialogs s) ?h")
  from h d obtain info where
    s': "s' = s\<lparr>mach := (mach s)\<lparr>heap := h1\<rparr>, dialogs := l, out_f := out_f s @ info\<rparr>"
    by (auto simp: handle_threshold_start_def split: sum.splits)
  from wf have vi: "valid_list ?h (init_dialogs s)"
    by (simp add: wf_worker_def)
  note dp = deepcopy_props [OF vi d]
  note dn = deepcopy_valid_new [OF vi d]
  note di = deepcopy_old [OF vi d vi]
  show "wf_worker s'"
    using dn di(1) di(4) by (simp add: wf_worker_def s')
  show "init_dialogs s' = init_dialogs s" by (simp add: s')
  show "dialogs s' = length (lists (heap (mach s)))" by (simp add: s' dp(1))
  show "turns_of (heap (mach s')) (dialogs s') = turns_of (heap (mach s)) (init_dialogs s)"
    by (simp add: s' dp(6))
  show "turns_of (heap (mach s')) (init_dialogs s) = turns_of (heap (mach s)) (init_dialogs s)"
    by (simp add: s' di(2))
  show "list_at (heap (mach s')) (init_dialogs s) = list_at (heap (mach s)) (init_dialogs s)"
    by (simp add: s' di(3))
  show "\<forall>x \<in> set (list_at (heap (mach s')) (dialogs s')).
           length (dicts (heap (mach s))) \<le> x \<and> x < length (dicts (heap (mach s')))"
    using dp(5) by (simp add: s')
  show "queue_snd (mach s') = queue_snd (mach s)" by (simp add: s')
  show "world (mach s') = world (mach s)" by (simp add: s')
qed

lemma handle_evolution_update_props:
  assumes wf: "wf_worker s" and h: "handle_evolution_update env mn p s = Continue s'"
  shows "wf_worker s'"
    and "init_dialogs s' = init_dialogs s"
    and "dialogs s' = dialogs s"
    and "appends_to (dialogs s) (heap (mach s)) (heap (mach s'))"
    and "out_f s' = out_f s"
proof -
  let ?h = "heap (mach s)"
  from h obtain prompt where rp: "round_prompt env p = Inr prompt"
    by (auto simp: handle_evolution_update_def split: sum.splits)
  let ?m1 = "(mach s)\<lparr>heap := append_turn (dialogs s) \<lparr>role = ''user'', content = prompt\<rparr> ?h\<rparr>"
  obtain r m2 where run: "process_llm_response env mn (dialogs s) 3 ?m1 = (r, m2)"
    by (cases "process_llm_response env mn (dialogs s) 3 ?m1")
  from h rp run have s': "s' = s\<lparr>mach := m2\<rparr>"
    by (simp add: handle_evolution_update_def Let_def)
  have a1: "appends_to (dialogs s) ?h (heap ?m1)"
    by (simp add: appends_to_append_turn)
  have a2: "appends_to (dialogs s) (heap ?m1) (heap m2)"
    using process_llm_response_appends_to [of "dialogs s" ?m1 env mn 3] run by simp
  have ap: "appends_to (dialogs s) ?h (heap m2)"
    by (rule appends_to_trans [OF a1 a2])
  show "appends_to (dialogs s) (heap (mach s)) (heap (mach s'))"
    using ap by (simp add: s')
  from wf have vd: "valid_list ?h (dialogs s)" and vi: "valid_list ?h (init_dialogs s)"
    and ne: "init_dialogs s \<noteq> dialogs s"
    by (simp_all add: wf_worker_def)
  show "wf_worker s'"
    using valid_list_appends_to [OF vd ap] valid_list_appends_to [OF vi ap] ne
    by (simp add: wf_worker_def s')
  show "init_dialogs s' = init_dialogs s" "dialogs s' = dialogs s" "out_f s' = out_f s"
    by (simp_all add: s')
qed

lemma handle_command_cases:
  "handle_command p s = Continue s' \<Longrightarrow> s' = s"
  "handle_command p s = Break s' \<Longrightarrow>
     payload_get p ''command'' (PyStr []) = Inr (PyStr ''exit'') \<and>
     s' = s\<lparr>out_f := out_f s @ conversation_ended\<rparr>"
  by (auto simp: handle_command_def split: sum.splits if_splits)

lemma handle_message_no_break:
  "msg_type m \<noteq> COMMAND \<Longrightarrow> handle_message env mn m s \<noteq> Break s'"
  by (cases "msg_type m")
     (auto simp: handle_message_def handle_init_def handle_evolution_update_def
        handle_threshold_start_def Let_def split: sum.splits prod.splits)

lemma handle_message_wf:
  assumes "wf_worker s" and "handle_message env mn m s = Continue s'"
  shows "wf_worker s'"
proof (cases "msg_type m")
  case INIT
  with assms show ?thesis by (auto simp: handle_message_def dest: handle_init_props(1))
next
  case COMMAND
  with assms show ?thesis by (auto simp: handle_message_def dest: handle_command_cases(1))
next
  case EVOLUTION_UPDATE
  with assms show ?thesis
    by (auto simp: handle_message_def dest: handle_evolution_update_props(1))
next
  case THRESHOLD_START
  with assms show ?thesis
    by (auto simp: handle_message_def dest: handle_threshold_start_props(1))
next
  case SUGGESTION
  with assms show ?thesis by (simp add: handle_message_def)
next
  case ERROR
  with assms show ?thesis by (simp add: handle_message_def)
qed

lemma llama_loop_wf:
  "wf_worker s \<Longrightarrow> llama_loop env mn evs s = Polling s' \<Longrightarrow> wf_worker s'"
proof (induction evs arbitrary: s)
  case Nil
  then show ?case by simp
next
  case (Cons ev evs)
  show ?case
  proof (cases ev)
    case QueueEmpty
    with Cons show ?thesis by simp
  next
    case Undecodable
    with Cons show ?thesis by simp
  next
    case (Received m)
    with Cons.prems(2) obtain s1 where
      h: "handle_message env mn m s = Continue s1" and
      l: "llama_loop env mn evs s1 = Polling s'"
      by (auto split: step.splits)
    from Cons.IH [OF handle_message_wf [OF Cons.prems(1) h] l] show ?thesis .
  qed
qed

lemma wf_initial_worker: "wf_worker (initial_worker w q)"
  by (simp add: wf_worker_def initial_worker_def valid_list_def list_at_def)

lemma llama_main_wf: "llama_main env mn w q evs = Polling s \<Longrightarrow> wf_worker s"
  unfolding llama_main_def by (rule llama_loop_wf [OF wf_initial_worker])

section \<open>INIT and THRESHOLD_START\<close>

lemma handle_message_INIT:
  "handle_message env mn \<lparr>msg_type = INIT, payload = p\<rparr> s = handle_init env p s"
  by (simp add: handle_message_def)

lemma handle_message_THRESHOLD_START:
  "handle_message env mn \<lparr>msg_type = THRESHOLD_START, payload = p\<rparr> s =
     handle_threshold_start env p s"
  by (simp add: handle_message_def)

lemma run_init_message:
  "llama_main example_env mn [] [] [Received init_message] = Polling after_init"
  by (simp add: llama_main_def initial_worker_def handle_message_def init_message_def
      handle_init_def payload_get_def new_list_def append_turn_def new_dict_def
      list_append_def list_at_def after_init_def system_turn_def Let_def)

lemma handle_threshold_message:
  "handle_message example_env mn threshold_message after_init = Continue after_threshold"
  by (simp add: handle_message_def threshold_message_def handle_threshold_start_def
      payload_get_def deepcopy_def new_list_def new_dict_def dict_at_def list_at_def
      after_init_def after_threshold_def eval_nat_numeral)

lemma list_at_lists_update:
  "l \<noteq> k \<Longrightarrow> list_at (st\<lparr>lists := (lists st)[k := ds]\<rparr>) l = list_at st l"
  by (simp add: list_at_def)

lemma dict_at_lists_update: "dict_at (st\<lparr>lists := ls\<rparr>) = dict_at st"
  by (rule ext) (simp add: dict_at_def)

lemma dict_at_dicts_update:
  "x \<noteq> d \<Longrightarrow> dict_at (st\<lparr>dicts := (dicts st)[d := t]\<rparr>) x = dict_at st x"
  by (simp add: dict_at_def)

lemma list_at_dicts_update: "list_at (st\<lparr>dicts := ds\<rparr>) = list_at st"
  by (rule ext) (simp add: list_at_def)

lemma handle_evolution_update_continues:
  "round_prompt env p = Inr prompt \<Longrightarrow>
     \<exists>s'. handle_message env mn \<lparr>msg_type = EVOLUTION_UPDATE, payload = p\<rparr> s = Continue s'"
  by (simp add: handle_message_def handle_evolution_update_def Let_def split: prod.split)

text \<open>
  Claim C10. In every state the worker can reach, handling an \<open>INIT\<close> envelope binds
  \<open>init_dialogs\<close> to a new one-turn list holding the new system prompt and leaves
  \<open>dialogs\<close> alone: the same list object, with the same elements and the same turns.
  The new system prompt enters the turn history at the next \<open>THRESHOLD_START\<close>, which
  makes the turn history that one system turn.
\<close>

theorem init_leaves_turns_unchanged:
  assumes reach: "llama_main env mn w q evs = Polling s"
      and h: "handle_message env mn \<lparr>msg_type = INIT, payload = p\<rparr> s = Continue s'"
  shows "dialogs s' = dialogs s \<and>
         list_at (heap (mach s')) (dialogs s') = list_at (heap (mach s)) (dialogs s) \<and>
         turns_of (heap (mach s')) (dialogs s') = turns_of (heap (mach s)) (dialogs s) \<and>
         (\<exists>labels operators.
            payload_get p ''labels'' (PyList []) = Inr labels \<and>
            payload_get p ''operators'' (PyList []) = Inr operators \<and>
            turns_of (heap (mach s')) (init_dialogs s') =
              [\<lparr>role = ''system'',
                content = create_system_prompt env labels operators resp_format_json\<rparr>] \<and>
            (\<forall>p2 s2.
               handle_message env mn \<lparr>msg_type = THRESHOLD_START, payload = p2\<rparr> s' =
                 Continue s2 \<longrightarrow>
               turns_of (heap (mach s2)) (dialogs s2) =
                 [\<lparr>role = ''system'',
                   content = create_system_prompt env labels operators resp_format_json\<rparr>]))"
proof -
  have wf: "wf_worker s" by (rule llama_main_wf [OF reach])
  from h have hi: "handle_init env p s = Continue s'" by (simp add: handle_message_INIT)
  note ip = handle_init_props [OF wf hi]
  from ip(6) obtain labels operators where
    pl: "payload_get p ''labels'' (PyList []) = Inr labels" and
    po: "payload_get p ''operators'' (PyList []) = Inr operators" and
    ti: "turns_of (heap (mach s')) (init_dialogs s') =
           [\<lparr>role = ''system'',
             content = create_system_prompt env labels operators resp_format_json\<rparr>]"
    by blast
  have th: "\<forall>p2 s2.
      handle_message env mn \<lparr>msg_type = THRESHOLD_START, payload = p2\<rparr> s' = Continue s2 \<longrightarrow>
      turns_of (heap (mach s2)) (dialogs s2) =
        [\<lparr>role = ''system'',
          content = create_system_prompt env labels operators resp_format_json\<rparr>]"
  proof (intro allI impI)
    fix p2 s2
    assume "handle_message env mn \<lparr>msg_type = THRESHOLD_START, payload = p2\<rparr> s' = Continue s2"
    then have "handle_threshold_start env p2 s' = Continue s2"
      by (simp add: handle_message_THRESHOLD_START)
    from handle_threshold_start_props(4) [OF ip(1) this] ti
    show "turns_of (heap (mach s2)) (dialogs s2) =
        [\<lparr>role = ''system'',
          content = create_system_prompt env labels operators resp_format_json\<rparr>]"
      by simp
  qed
  show ?thesis
    using ip(2) ip(4) ip(5) pl po ti th by auto
qed

theorem init_leaves_turns_unchanged_witness:
  "llama_main example_env ''Qwen/Qwen2.5-72B-Instruct'' [] [] [Received init_message] =
     Polling after_init \<and>
   handle_message example_env ''Qwen/Qwen2.5-72B-Instruct''
     \<lparr>msg_type = INIT, payload = PyDict [(PyStr ''labels'', PyList [PyStr ''y0''])]\<rparr> after_init =
     Continue
       \<lparr>mach = \<lparr>heap = \<lparr>lists = [[], [], [0], [1]],
                        dicts = [system_turn,
                                 \<lparr>role = ''system'',
                                  content = create_system_prompt example_env
                                    (PyList [PyStr ''y0'']) (PyList []) resp_format_json\<rparr>]\<rparr>,
                world = [], queue_snd = []\<rparr>,
        init_dialogs = 3, dialogs = 1, out_f = []\<rparr> \<and>
   dialogs
     \<lparr>mach = \<lparr>heap = \<lparr>lists = [[], [], [0], [1]],
                      dicts = [system_turn,
                               \<lparr>role = ''system'',
                                content = create_system_prompt example_env
                                  (PyList [PyStr ''y0'']) (PyList []) resp_format_json\<rparr>]\<rparr>,
              world = ([] :: backend_result list), queue_snd = []\<rparr>,
      init_dialogs = 3, dialogs = 1, out_f = []\<rparr> = dialogs after_init \<and>
   turns_of \<lparr>lists = [[], [], [0], [1]],
             dicts = [system_turn,
                      \<lparr>role = ''system'',
                       content = create_system_prompt example_env
                         (PyList [PyStr ''y0'']) (PyList []) resp_format_json\<rparr>]\<rparr> 1 =
     turns_of (heap (mach after_init)) (dialogs after_init)"
proof -
  let ?mn = "''Qwen/Qwen2.5-72B-Instruct''"
  let ?s' = "\<lparr>mach = \<lparr>heap = \<lparr>lists = [[], [], [0], [1]],
                        dicts = [system_turn,
                                 \<lparr>role = ''system'',
                                  content = create_system_prompt example_env
                                    (PyList [PyStr ''y0'']) (PyList []) resp_format_json\<rparr>]\<rparr>,
                world = [], queue_snd = []\<rparr>,
        init_dialogs = 3, dialogs = 1, out_f = []\<rparr> :: backend_result list worker"
  have r: "llama_main example_env ?mn [] [] [Received init_message] = Polling after_init"
    by (rule run_init_message)
  have h: "handle_message example_env ?mn
             \<lparr>msg_type = INIT, payload = PyDict [(PyStr ''labels'', PyList [PyStr ''y0''])]\<rparr>
             after_init = Continue ?s'"
    by (simp add: handle_message_def handle_init_def payload_get_def new_list_def
        append_turn_def new_dict_def list_append_def list_at_def after_init_def Let_def
        eval_nat_numeral)
  note t = init_leaves_turns_unchanged [OF r h]
  have c1: "dialogs ?s' = dialogs after_init"
    by (rule t [THEN conjunct1])
  have c3: "turns_of (heap (mach ?s')) (dialogs ?s') =
              turns_of (heap (mach after_init)) (dialogs after_init)"
    by (rule t [THEN conjunct2, THEN conjunct2, THEN conjunct1])
  have c3': "turns_of \<lparr>lists = [[], [], [0], [1]],
             dicts = [system_turn,
                      \<lparr>role = ''system'',
                       content = create_system_prompt example_env
                         (PyList [PyStr ''y0'']) (PyList []) resp_format_json\<rparr>]\<rparr> 1 =
     turns_of (heap (mach after_init)) (dialogs after_init)"
    using c3 by simp
  show ?thesis
    by (intro conjI) (rule r, rule h, rule c1, rule c3')
qed

text \<open>
  Claim C6. In every state the worker can reach, handling \<open>THRESHOLD_START\<close> leaves
  \<open>init_dialogs\<close> and its turns as they were and binds \<open>dialogs\<close> to a list with the
  same turns that is another list object made of other dict objects. Hence replacing the
  contents of the new list object, overwriting any of its dict objects, or appending a
  turn to it leaves the turns of \<open>init_dialogs\<close> unchanged.
\<close>

theorem threshold_start_fresh_copy:
  assumes reach: "llama_main env mn w q evs = Polling s"
      and h: "handle_message env mn \<lparr>msg_type = THRESHOLD_START, payload = p\<rparr> s = Continue s'"
  shows "init_dialogs s' = init_dialogs s \<and>
         turns_of (heap (mach s')) (init_dialogs s') =
           turns_of (heap (mach s)) (init_dialogs s) \<and>
         turns_of (heap (mach s')) (dialogs s') = turns_of (heap (mach s')) (init_dialogs s') \<and>
         dialogs s' \<noteq> init_dialogs s' \<and>
         set (list_at (heap (mach s')) (dialogs s')) \<inter>
           set (list_at (heap (mach s')) (init_dialogs s')) = {} \<and>
         (\<forall>ds. turns_of ((heap (mach s'))\<lparr>lists := (lists (heap (mach s')))[dialogs s' := ds]\<rparr>)
                 (init_dialogs s') =
               turns_of (heap (mach s')) (init_dialogs s')) \<and>
         (\<forall>d \<in> set (list_at (heap (mach s')) (dialogs s')).
            \<forall>t. turns_of ((heap (mach s'))\<lparr>dicts := (dicts (heap (mach s')))[d := t]\<rparr>)
                   (init_dialogs s') =
                 turns_of (heap (mach s')) (init_dialogs s')) \<and>
         (\<forall>t. turns_of (append_turn (dialogs s') t (heap (mach s'))) (init_dialogs s') =
              turns_of (heap (mach s')) (init_dialogs s'))"
proof -
  let ?h = "heap (mach s)" and ?h' = "heap (mach s')"
  have wf: "wf_worker s" by (rule llama_main_wf [OF reach])
  from h have ht: "handle_threshold_start env p s = Continue s'"
    by (simp add: handle_message_THRESHOLD_START)
  note tp = handle_threshold_start_props [OF wf ht]
  from tp(1) have vi': "valid_list ?h' (init_dialogs s')" and ne: "init_dialogs s' \<noteq> dialogs s'"
    by (simp_all add: wf_worker_def)
  from wf have vi: "valid_list ?h (init_dialogs s)" by (simp add: wf_worker_def)
  have old: "\<forall>x \<in> set (list_at ?h' (init_dialogs s')). x < length (dicts ?h)"
    using valid_listD(2) [OF vi] tp(2) tp(6) by simp
  have disj: "set (list_at ?h' (dialogs s')) \<inter> set (list_at ?h' (init_dialogs s')) = {}"
    using old tp(7) by fastforce
  have m1: "\<forall>ds. turns_of (?h'\<lparr>lists := (lists ?h')[dialogs s' := ds]\<rparr>) (init_dialogs s') =
                 turns_of ?h' (init_dialogs s')"
    using ne by (simp add: turns_of_def list_at_lists_update dict_at_lists_update)
  have m2: "\<forall>d \<in> set (list_at ?h' (dialogs s')).
              \<forall>t. turns_of (?h'\<lparr>dicts := (dicts ?h')[d := t]\<rparr>) (init_dialogs s') =
                   turns_of ?h' (init_dialogs s')"
  proof (intro ballI allI)
    fix d t
    assume d: "d \<in> set (list_at ?h' (dialogs s'))"
    have "\<forall>x \<in> set (list_at ?h' (init_dialogs s')). x \<noteq> d"
      using d disj by blast
    then show "turns_of (?h'\<lparr>dicts := (dicts ?h')[d := t]\<rparr>) (init_dialogs s') =
               turns_of ?h' (init_dialogs s')"
      by (simp add: turns_of_def list_at_dicts_update dict_at_dicts_update)
  qed
  have m3: "\<forall>t. turns_of (append_turn (dialogs s') t ?h') (init_dialogs s') =
                turns_of ?h' (init_dialogs s')"
    using turns_of_appends_to_other [OF vi' ne appends_to_append_turn] by blast
  show ?thesis
    using tp(2) tp(4) tp(5) ne disj m1 m2 m3 by simp
qed

theorem threshold_start_fresh_copy_witness:
  "llama_main example_env ''Qwen/Qwen2.5-72B-Instruct'' [] [] [Received init_message] =
     Polling after_init \<and>
   handle_message example_env ''Qwen/Qwen2.5-72B-Instruct''
     \<lparr>msg_type = THRESHOLD_START, payload = payload threshold_message\<rparr> after_init =
     Continue after_threshold \<and>
   turns_of (heap (mach after_threshold)) (dialogs after_threshold) =
     turns_of (heap (mach after_threshold)) (init_dialogs after_threshold) \<and>
   dialogs after_threshold \<noteq> init_dialogs after_threshold \<and>
   set (list_at (heap (mach after_threshold)) (dialogs after_threshold)) \<inter>
     set (list_at (heap (mach after_threshold)) (init_dialogs after_threshold)) = {} \<and>
   1 \<in> set (list_at (heap (mach after_threshold)) (dialogs after_threshold)) \<and>
   turns_of ((heap (mach after_threshold))
               \<lparr>dicts := (dicts (heap (mach after_threshold)))
                           [1 := \<lparr>role = ''system'', content = ''changed''\<rparr>]\<rparr>)
     (init_dialogs after_threshold) =
     turns_of (heap (mach after_threshold)) (init_dialogs after_threshold) \<and>
   turns_of (append_turn (dialogs after_threshold) \<lparr>role = ''user'', content = ''next''\<rparr>
               (heap (mach after_threshold)))
     (init_dialogs after_threshold) =
     turns_of (heap (mach after_threshold)) (init_dialogs after_threshold)"
proof -
  let ?mn = "''Qwen/Qwen2.5-72B-Instruct''"
  have r: "llama_main example_env ?mn [] [] [Received init_message] = Polling after_init"
    by (rule run_init_message)
  have h: "handle_message example_env ?mn
             \<lparr>msg_type = THRESHOLD_START, payload = payload threshold_message\<rparr> after_init =
             Continue after_threshold"
    using handle_threshold_message [of ?mn] by (simp add: threshold_message_def)
  note t = threshold_start_fresh_copy [OF r h]
  have m: "1 \<in> set (list_at (heap (mach after_threshold)) (dialogs after_threshold))"
    by (simp add: after_threshold_def list_at_def)
  note c3 = t [THEN conjunct2, THEN conjunct2, THEN conjunct1]
  note c4 = t [THEN conjunct2, THEN conjunct2, THEN conjunct2, THEN conjunct1]
  note c5 = t [THEN conjunct2, THEN conjunct2, THEN conjunct2, THEN conjunct2, THEN conjunct1]
  note c7 = t [THEN conjunct2, THEN conjunct2, THEN conjunct2, THEN conjunct2, THEN conjunct2,
      THEN conjunct2, THEN conjunct1, rule_format, OF m,
      of "\<lparr>role = ''system'', content = ''changed''\<rparr>"]
  note c8 = t [THEN conjunct2, THEN conjunct2, THEN conjunct2, THEN conjunct2, THEN conjunct2,
      THEN conjunct2, THEN conjunct2, rule_format, of "\<lparr>role = ''user'', content = ''next''\<rparr>"]
  show ?thesis
    by (intro conjI) (rule r, rule h, rule c3, rule c4, rule c5, rule m, rule c7, rule c8)
qed

section \<open>The turn history and the system-prompt prefix\<close>

lemma handle_message_no_init_prefix:
  assumes wf: "wf_worker s"
      and pre: "prefix (turns_of (heap (mach s)) (init_dialogs s))
                       (turns_of (heap (mach s)) (dialogs s))"
      and ni: "msg_type m \<noteq> INIT"
      and h: "handle_message env mn m s = Continue s'"
  shows "turns_of (heap (mach s')) (init_dialogs s') = turns_of (heap (mach s)) (init_dialogs s) \<and>
         prefix (turns_of (heap (mach s')) (init_dialogs s'))
                (turns_of (heap (mach s')) (dialogs s'))"
proof (cases "msg_type m")
  case INIT
  with ni show ?thesis by simp
next
  case COMMAND
  with h have "s' = s" by (auto simp: handle_message_def dest: handle_command_cases(1))
  with pre show ?thesis by simp
next
  case EVOLUTION_UPDATE
  with h have he: "handle_evolution_update env mn (payload m) s = Continue s'"
    by (simp add: handle_message_def)
  note ep = handle_evolution_update_props [OF wf he]
  from wf have vd: "valid_list (heap (mach s)) (dialogs s)"
    and vi: "valid_list (heap (mach s)) (init_dialogs s)"
    and ne: "init_dialogs s \<noteq> dialogs s"
    by (simp_all add: wf_worker_def)
  have i: "turns_of (heap (mach s')) (init_dialogs s) = turns_of (heap (mach s)) (init_dialogs s)"
    by (rule turns_of_appends_to_other [OF vi ne ep(4)])
  have d: "prefix (turns_of (heap (mach s)) (dialogs s)) (turns_of (heap (mach s')) (dialogs s))"
    by (rule turns_of_appends_to_prefix [OF vd ep(4)])
  from pre d have "prefix (turns_of (heap (mach s)) (init_dialogs s))
                          (turns_of (heap (mach s')) (dialogs s))"
    by (rule prefix_order.trans)
  with i show ?thesis by (simp add: ep(2) ep(3))
next
  case THRESHOLD_START
  with h have ht: "handle_threshold_start env (payload m) s = Continue s'"
    by (simp add: handle_message_def)
  note tp = handle_threshold_start_props [OF wf ht]
  show ?thesis by (simp add: tp(2) tp(4) tp(5))
next
  case SUGGESTION
  with h have "s' = s" by (simp add: handle_message_def)
  with pre show ?thesis by simp
next
  case ERROR
  with h have "s' = s" by (simp add: handle_message_def)
  with pre show ?thesis by simp
qed

lemma llama_loop_no_init_prefix:
  assumes "wf_worker s"
      and "prefix (turns_of (heap (mach s)) (init_dialogs s))
                  (turns_of (heap (mach s)) (dialogs s))"
      and "list_all not_init evs"
      and "llama_loop env mn evs s = Polling s'"
  shows "turns_of (heap (mach s')) (init_dialogs s') = turns_of (heap (mach s)) (init_dialogs s) \<and>
         prefix (turns_of (heap (mach s')) (init_dialogs s'))
                (turns_of (heap (mach s')) (dialogs s'))"
  using assms
proof (induction evs arbitrary: s)
  case Nil
  then show ?case by simp
next
  case (Cons ev evs)
  from Cons.prems(3) have rest: "list_all not_init evs" by simp
  show ?case
  proof (cases ev)
    case QueueEmpty
    with Cons.prems(4) have "llama_loop env mn evs s = Polling s'" by simp
    from Cons.IH [OF Cons.prems(1) Cons.prems(2) rest this] show ?thesis .
  next
    case Undecodable
    with Cons.prems(4) have "llama_loop env mn evs s = Polling s'" by simp
    from Cons.IH [OF Cons.prems(1) Cons.prems(2) rest this] show ?thesis .
  next
    case (Received m)
    with Cons.prems(4) obtain s1 where
      h: "handle_message env mn m s = Continue s1" and
      l: "llama_loop env mn evs s1 = Polling s'"
      by (auto split: step.splits)
    from Cons.prems(3) Received have ni: "msg_type m \<noteq> INIT" by simp
    note st = handle_message_no_init_prefix [OF Cons.prems(1) Cons.prems(2) ni h]
    note ih = Cons.IH [OF handle_message_wf [OF Cons.prems(1) h] st [THEN conjunct2] rest l]
    have "turns_of (heap (mach s')) (init_dialogs s') = turns_of (heap (mach s)) (init_dialogs s)"
      using ih [THEN conjunct1] st [THEN conjunct1] by (rule trans)
    then show ?thesis
      using ih [THEN conjunct2] by (rule conjI)
  qed
qed

text \<open>
  Claim C3, as amended. In every state the worker can reach, handling \<open>INIT\<close> sets
  \<open>init_dialogs\<close> to the one-turn list holding the system prompt and leaves the turn
  history as it was. The turn history is set to a copy of \<open>init_dialogs\<close> by
  \<open>THRESHOLD_START\<close>, and from then on, as long as no \<open>INIT\<close> arrives,
  \<open>init_dialogs\<close> keeps its turns and the turn history begins with them.
\<close>

theorem init_sets_prefix_only:
  assumes reach: "llama_main env mn w q evs0 = Polling s"
  shows "(\<forall>p s1.
            handle_message env mn \<lparr>msg_type = INIT, payload = p\<rparr> s = Continue s1 \<longrightarrow>
            (\<exists>labels operators.
               payload_get p ''labels'' (PyList []) = Inr labels \<and>
               payload_get p ''operators'' (PyList []) = Inr operators \<and>
               turns_of (heap (mach s1)) (init_dialogs s1) =
                 [\<lparr>role = ''system'',
                   content = create_system_prompt env labels operators resp_format_json\<rparr>]) \<and>
            turns_of (heap (mach s1)) (dialogs s1) = turns_of (heap (mach s)) (dialogs s)) \<and>
         (\<forall>p s1 evs s2.
            handle_message env mn \<lparr>msg_type = THRESHOLD_START, payload = p\<rparr> s = Continue s1 \<and>
            list_all not_init evs \<and> llama_loop env mn evs s1 = Polling s2 \<longrightarrow>
            turns_of (heap (mach s1)) (dialogs s1) = turns_of (heap (mach s)) (init_dialogs s) \<and>
            turns_of (heap (mach s2)) (init_dialogs s2) =
              turns_of (heap (mach s)) (init_dialogs s) \<and>
            prefix (turns_of (heap (mach s2)) (init_dialogs s2))
                   (turns_of (heap (mach s2)) (dialogs s2)))"
proof (intro conjI allI impI)
  have wf: "wf_worker s" by (rule llama_main_wf [OF reach])
  {
    fix p s1
    assume "handle_message env mn \<lparr>msg_type = INIT, payload = p\<rparr> s = Continue s1"
    then have hi: "handle_init env p s = Continue s1" by (simp add: handle_message_INIT)
    note ip = handle_init_props [OF wf hi]
    show "\<exists>labels operators.
               payload_get p ''labels'' (PyList []) = Inr labels \<and>
               payload_get p ''operators'' (PyList []) = Inr operators \<and>
               turns_of (heap (mach s1)) (init_dialogs s1) =
                 [\<lparr>role = ''system'',
                   content = create_system_prompt env labels operators resp_format_json\<rparr>]"
      by (rule ip(6))
    show "turns_of (heap (mach s1)) (dialogs s1) = turns_of (heap (mach s)) (dialogs s)"
      using ip(2) ip(5) by simp
  }
  {
    fix p s1 evs s2
    assume a: "handle_message env mn \<lparr>msg_type = THRESHOLD_START, payload = p\<rparr> s = Continue s1 \<and>
               list_all not_init evs \<and> llama_loop env mn evs s1 = Polling s2"
    then have ht: "handle_threshold_start env p s = Continue s1"
      by (simp add: handle_message_THRESHOLD_START)
    note tp = handle_threshold_start_props [OF wf ht]
    have p1: "prefix (turns_of (heap (mach s1)) (init_dialogs s1))
                     (turns_of (heap (mach s1)) (dialogs s1))"
      by (simp add: tp(2) tp(4) tp(5))
    from a have na: "list_all not_init evs" and l: "llama_loop env mn evs s1 = Polling s2"
      by simp_all
    note inv = llama_loop_no_init_prefix [OF tp(1) p1 na l]
    show "turns_of (heap (mach s1)) (dialogs s1) = turns_of (heap (mach s)) (init_dialogs s)"
      by (rule tp(4))
    show "turns_of (heap (mach s2)) (init_dialogs s2) = turns_of (heap (mach s)) (init_dialogs s)"
      using inv tp(2) tp(5) by simp
    show "prefix (turns_of (heap (mach s2)) (init_dialogs s2))
                 (turns_of (heap (mach s2)) (dialogs s2))"
      by (rule inv [THEN conjunct2])
  }
qed

theorem init_sets_prefix_only_witness:
  "llama_main example_env ''Qwen/Qwen2.5-72B-Instruct'' [] [] [Received init_message] =
     Polling after_init \<and>
   handle_message example_env ''Qwen/Qwen2.5-72B-Instruct''
     \<lparr>msg_type = THRESHOLD_START, payload = payload threshold_message\<rparr> after_init =
     Continue after_threshold \<and>
   list_all not_init
     [Received \<lparr>msg_type = EVOLUTION_UPDATE, payload = payload empty_update\<rparr>, QueueEmpty] \<and>
   (\<exists>s2. llama_loop example_env ''Qwen/Qwen2.5-72B-Instruct''
           [Received \<lparr>msg_type = EVOLUTION_UPDATE, payload = payload empty_update\<rparr>, QueueEmpty]
           after_threshold = Polling s2 \<and>
         turns_of (heap (mach after_threshold)) (dialogs after_threshold) =
           turns_of (heap (mach after_init)) (init_dialogs after_init) \<and>
         turns_of (heap (mach s2)) (init_dialogs s2) =
           turns_of (heap (mach after_init)) (init_dialogs after_init) \<and>
         prefix (turns_of (heap (mach s2)) (init_dialogs s2))
                (turns_of (heap (mach s2)) (dialogs s2)))"
proof -
  let ?mn = "''Qwen/Qwen2.5-72B-Instruct''"
  let ?evs = "[Received \<lparr>msg_type = EVOLUTION_UPDATE, payload = payload empty_update\<rparr>, QueueEmpty]"
  have r: "llama_main example_env ?mn [] [] [Received init_message] = Polling after_init"
    by (rule run_init_message)
  have h: "handle_message example_env ?mn
             \<lparr>msg_type = THRESHOLD_START, payload = payload threshold_message\<rparr> after_init =
             Continue after_threshold"
    using handle_threshold_message [of ?mn] by (simp add: threshold_message_def)
  have n: "list_all not_init ?evs" by simp
  from handle_evolution_update_continues [OF round_prompt_empty_update,
      of example_env ?mn after_threshold]
  obtain s2 where "handle_message example_env ?mn
      \<lparr>msg_type = EVOLUTION_UPDATE, payload = payload empty_update\<rparr> after_threshold = Continue s2"
    by blast
  then have l: "llama_loop example_env ?mn ?evs after_threshold = Polling s2"
    by simp
  note t = init_sets_prefix_only [OF r, THEN conjunct2, rule_format, OF conjI [OF h conjI [OF n l]]]
  show ?thesis
    using r h n l t by blast
qed

text \<open>
  The claim as stated fails: after \<open>INIT\<close> as the first message the prefix holds the
  system turn and the turn history is still empty.
\<close>

theorem init_does_not_set_turns_counterexample:
  "llama_main example_env ''Qwen/Qwen2.5-72B-Instruct'' [] [] [Received init_message] =
     Polling after_init \<and>
   turns_of (heap (mach after_init)) (init_dialogs after_init) = [system_turn] \<and>
   turns_of (heap (mach after_init)) (dialogs after_init) = [] \<and>
   \<not> prefix (turns_of (heap (mach after_init)) (init_dialogs after_init))
            (turns_of (heap (mach after_init)) (dialogs after_init))"
proof -
  have 1: "turns_of (heap (mach after_init)) (init_dialogs after_init) = [system_turn]"
    by (simp add: after_init_def turns_of_def list_at_def dict_at_def)
  have 2: "turns_of (heap (mach after_init)) (dialogs after_init) = []"
    by (simp add: after_init_def turns_of_def list_at_def)
  show ?thesis
    unfolding 1 2 by (simp add: run_init_message)
qed

section \<open>Exit and the transcript\<close>

lemma llama_loop_append:
  "llama_loop env mn (pre @ evs) s =
     (case llama_loop env mn pre s of
        Polling s1 \<Rightarrow> llama_loop env mn evs s1
      | Exited s1 \<Rightarrow> Exited s1
      | Crashed e \<Rightarrow> Crashed e)"
proof (induction pre arbitrary: s)
  case Nil
  show ?case by simp
next
  case (Cons ev pre)
  show ?case
  proof (cases ev)
    case QueueEmpty
    then show ?thesis by (simp add: Cons.IH)
  next
    case Undecodable
    then show ?thesis by (simp add: Cons.IH)
  next
    case (Received m)
    then show ?thesis by (simp add: Cons.IH split: step.split)
  qed
qed

lemma capitalize_user: "capitalize ''user'' = ''User''"
  by code_simp

lemma capitalize_assistant: "capitalize ''assistant'' = ''Assistant''"
  by code_simp

lemma run_empty_update:
  "llama_main example_env mn [Content good_response] [] [Received empty_update] =
     Polling after_update"
proof -
  let ?m1 = "\<lparr>heap = \<lparr>lists = [[], [0]], dicts = [\<lparr>role = ''user'', content = first_prompt\<rparr>]\<rparr>,
              world = [Content good_response], queue_snd = []\<rparr> :: backend_result list machine"
  have a: "attempt example_env mn 1 ?m1 = (Sent, mach after_update)"
    using scripted_valid [of ?m1 good_response "[]" good_payload mn 1]
    by (simp add: strip_good_response example_validate_good after_update_def append_turn_def
        new_dict_def list_append_def list_at_def)
  have p: "process_llm_response example_env mn 1 3 ?m1 = (Returned True, mach after_update)"
    using retry_loop_Sent [of 0 3 example_env mn 1 ?m1 "mach after_update"] a
    by (simp add: process_llm_response_def)
  have h: "handle_message example_env mn empty_update (initial_worker [Content good_response] []) =
             Continue after_update"
    using p round_prompt_empty_update [of example_env]
    by (simp add: handle_message_def empty_update_def handle_evolution_update_def
        initial_worker_def append_turn_def new_dict_def list_append_def list_at_def
        first_prompt_def after_update_def Let_def)
  show ?thesis
    by (simp add: llama_main_def h)
qed

lemma exit_run:
  assumes run: "llama_main env mn w q pre = Polling s"
      and ex: "payload_get p ''command'' (PyStr []) = Inr (PyStr ''exit'')"
  shows "llama_main env mn w q (pre @ Received \<lparr>msg_type = COMMAND, payload = p\<rparr> # post) =
           Exited (write_transcript (s\<lparr>out_f := out_f s @ conversation_ended\<rparr>))"
proof -
  have h: "handle_message env mn \<lparr>msg_type = COMMAND, payload = p\<rparr> s =
             Break (s\<lparr>out_f := out_f s @ conversation_ended\<rparr>)"
    using ex by (simp add: handle_message_def handle_command_def)
  have "llama_loop env mn (Received \<lparr>msg_type = COMMAND, payload = p\<rparr> # post) s =
          Exited (write_transcript (s\<lparr>out_f := out_f s @ conversation_ended\<rparr>))"
    by (simp add: h)
  then show ?thesis
    using run by (simp add: llama_main_def llama_loop_append)
qed

lemma exit_message_payload:
  "payload_get (payload exit_message) ''command'' (PyStr []) = Inr (PyStr ''exit'')"
  by (simp add: exit_message_def payload_get_def)

lemma after_update_turns:
  "turns_of (heap (mach after_update)) (dialogs after_update) =
     [\<lparr>role = ''user'', content = first_prompt\<rparr>,
      \<lparr>role = ''assistant'', content = good_response\<rparr>]"
  by (simp add: after_update_def turns_of_def list_at_def dict_at_def)

lemma transcript_block_user:
  "transcript_block \<lparr>role = ''user'', content = c\<rparr> =
     ''User: '' @ c @ ''\<newline>\<newline>'' @ separator"
  by (simp add: transcript_block_def capitalize_user del: capitalize.simps)

lemma transcript_block_assistant:
  "transcript_block \<lparr>role = ''assistant'', content = c\<rparr> =
     ''Assistant: '' @ c @ ''\<newline>\<newline>'' @ separator"
  by (simp add: transcript_block_def capitalize_assistant del: capitalize.simps)

lemma spec_transcript_block_user:
  "spec_transcript_block \<lparr>role = ''user'', content = c\<rparr> =
     ''User'' @ ''\<newline>'' @ ''\<newline>'' @ c @ ''\<newline>'' @ separator"
  by (simp add: spec_transcript_block_def capitalize_user del: capitalize.simps)

text \<open>
  Claim C7, as amended. When \<open>COMMAND("exit")\<close> arrives while the worker is running,
  the run ends there, whatever envelopes follow, with the state it had: the file receives
  the line \<open>Conversation ended\<close> and then, for each turn of the turn history in order,
  one block made of the capitalised role label, a colon and a space, the content, a
  newline, a blank line and a separator line.
\<close>

theorem exit_writes_transcript:
  assumes run: "llama_main env mn w q pre = Polling s"
      and ex: "payload_get p ''command'' (PyStr []) = Inr (PyStr ''exit'')"
  shows "llama_main env mn w q (pre @ Received \<lparr>msg_type = COMMAND, payload = p\<rparr> # post) =
           Exited (s\<lparr>out_f := out_f s @ conversation_ended @
                      concat (map (\<lambda>t. capitalize (role t) @ '': '' @ content t @
                                         ''\<newline>\<newline>'' @ separator)
                                  (turns_of (heap (mach s)) (dialogs s)))\<rparr>)"
proof -
  have tb: "transcript_block =
      (\<lambda>t. capitalize (role t) @ '': '' @ content t @ ''\<newline>\<newline>'' @ separator)"
    by (rule ext) (simp add: transcript_block_def)
  have "write_transcript (s\<lparr>out_f := out_f s @ conversation_ended\<rparr>) =
      s\<lparr>out_f := out_f s @ conversation_ended @
                      concat (map (\<lambda>t. capitalize (role t) @ '': '' @ content t @
                                         ''\<newline>\<newline>'' @ separator)
                                  (turns_of (heap (mach s)) (dialogs s)))\<rparr>"
    unfolding tb write_transcript_def by simp
  then show ?thesis
    using exit_run [OF run ex, of post] by simp
qed

theorem exit_writes_transcript_witness:
  "llama_main example_env ''Qwen/Qwen2.5-72B-Instruct'' [Content good_response] []
     [Received empty_update] = Polling after_update \<and>
   payload_get (payload exit_message) ''command'' (PyStr []) = Inr (PyStr ''exit'') \<and>
   llama_main example_env ''Qwen/Qwen2.5-72B-Instruct'' [Content good_response] []
     ([Received empty_update] @
      Received \<lparr>msg_type = COMMAND, payload = payload exit_message\<rparr> # [Received init_message]) =
     Exited (after_update
       \<lparr>out_f := out_f after_update @ conversation_ended @
                 concat (map (\<lambda>t. capitalize (role t) @ '': '' @ content t @
                                    ''\<newline>\<newline>'' @ separator)
                             (turns_of (heap (mach after_update)) (dialogs after_update)))\<rparr>)"
  using exit_writes_transcript [OF run_empty_update exit_message_payload,
      of "''Qwen/Qwen2.5-72B-Instruct''" "[Received init_message]"]
    run_empty_update [of "''Qwen/Qwen2.5-72B-Instruct''"] exit_message_payload
  by (intro conjI)

text \<open>
  The claim as stated fails on the format of a block: the content follows the role label
  on the same line and the blank line comes after it, where the specification puts the
  blank line between the role label and the content.
\<close>

theorem transcript_format_counterexample:
  "transcript_of (llama_main example_env ''Qwen/Qwen2.5-72B-Instruct'' [Content good_response] []
      [Received empty_update, Received exit_message]) =
     Some (conversation_ended @
           ''User: '' @ first_prompt @ ''\<newline>\<newline>'' @ separator @
           ''Assistant: '' @ good_response @ ''\<newline>\<newline>'' @ separator) \<and>
   transcript_of (llama_main example_env ''Qwen/Qwen2.5-72B-Instruct'' [Content good_response] []
      [Received empty_update, Received exit_message]) \<noteq>
     Some (conversation_ended @
           spec_transcript_block \<lparr>role = ''user'', content = first_prompt\<rparr> @
           spec_transcript_block \<lparr>role = ''assistant'', content = good_response\<rparr>)"
proof -
  let ?mn = "''Qwen/Qwen2.5-72B-Instruct''"
  have e: "\<lparr>msg_type = COMMAND, payload = payload exit_message\<rparr> = exit_message"
    by (simp add: exit_message_def)
  have "llama_main example_env ?mn [Content good_response] []
          ([Received empty_update] @ Received exit_message # []) =
        Exited (write_transcript (after_update\<lparr>out_f := out_f after_update @ conversation_ended\<rparr>))"
    using exit_run [OF run_empty_update exit_message_payload, of ?mn "[]"] by (simp only: e)
  then have t: "transcript_of (llama_main example_env ?mn [Content good_response] []
                  [Received empty_update, Received exit_message]) =
      Some (conversation_ended @
            ''User: '' @ first_prompt @ ''\<newline>\<newline>'' @ separator @
            ''Assistant: '' @ good_response @ ''\<newline>\<newline>'' @ separator)"
    by (simp add: transcript_of_def write_transcript_def after_update_turns
        transcript_block_user transcript_block_assistant)
       (simp add: after_update_def)
  show ?thesis
    unfolding t
    by (simp add: spec_transcript_block_user)
qed

end
